theory Spec2Isabelle
  imports Complex_Main "HOL-Library.Sublist"
begin

section \<open>Admission validation of an InferenceService\<close>

text \<open>
  A shallow embedding of \<^verbatim>\<open>pkg/apis/serving/v1beta1/inference_service_validation.go\<close>.
  Every Go function of that file is a HOL function of the same name. A Go \<^verbatim>\<open>error\<close>
  result is an \<open>error option\<close> (\<open>None\<close> is \<^verbatim>\<open>nil\<close>); a nil pointer is \<open>None\<close> of an
  option type, and dereferencing it is the error value \<open>NilPointerDereference\<close>, which
  stands for the run-time panic.
\<close>

subsection \<open>Errors\<close>

text \<open>
  One constructor per error message of the source file; the arguments are the values the
  message is formatted with. \<open>ExactlyOneImplementationError\<close> and \<open>ExternalError\<close> are the
  errors of functions declared outside the validation file.
\<close>

datatype ComponentRole = PredictorComponent | TransformerComponent | ExplainerComponent

datatype error =
    InvalidISVCNameFormatError string
  | UnsupportedAutoscalerClassError string
  | UnknownAutoscalerClassError string
  | ScaleMetricAutoScalingConflictError
  | UnknownAutoScalingTypeError string string
  | UnsupportedKEDAMetricError string
  | UnsupportedKEDAMetricBackendError string
  | UnsupportedMetricError string
  | TargetUtilizationPercentageError
  | TargetUtilizationPercentageKedaError
  | TargetMemoryError
  | EmptyQueryError
  | EmptyThresholdError
  | DeploymentStrategyError
  | TargetRPSError
  | DisallowedMultipleContainersInWorkerSpecError string
  | DisallowedWorkerSpecPipelineParallelSizeEnvError string
  | DisallowedWorkerSpecTensorParallelSizeEnvError string
  | InvalidUnknownGPUTypeError string
  | MissingStorageURI string
  | InvalidNotSupportedStorageURIProtocolError string string
  | InvalidAutoScalerError string string
  | InvalidWorkerSpecPipelineParallelSizeValueError string int
  | InvalidWorkerSpecTensorParallelSizeValueError string int
  | StorageUriPresentInTransformerError
  | ExactlyOneImplementationError ComponentRole
  | ExternalError string
  | NilPointerDereference

text \<open>
  A block of Go code inside a function either returns from the function with a value or
  falls through to the statement after it.
\<close>

datatype 'a flow = Return 'a | FallThrough

subsection \<open>Resource model\<close>

text \<open>
  The struct declarations are outside the validation file; the records below have the
  fields the validation code reads, with the pointer fields (those the code compares with
  \<^verbatim>\<open>nil\<close> or dereferences with \<^verbatim>\<open>*\<close>) as options. A metric entry is tagged
  \<^verbatim>\<open>Resource\<close> or \<^verbatim>\<open>External\<close> and carries the matching part only, so its two
  parts are pointers as well. \<^verbatim>\<open>ScaleMetric\<close>,
  \<^verbatim>\<open>MetricsBackend\<close> and \<^verbatim>\<open>MetricSourceType\<close> are Go string types. The integer
  fields are only compared with constants, so they are unbounded integers here. A
  \<^verbatim>\<open>resource.Quantity\<close> is the number it denotes.
\<close>

type_synonym ScaleMetric = string
type_synonym MetricsBackend = string
type_synonym MetricSourceType = string
type_synonym Quantity = rat
type_synonym annotations = "string \<rightharpoonup> string"

record EnvVar =
  EnvVar_Name :: string
  EnvVar_Value :: string

record ResourceRequirements =
  Limits :: "(string \<times> string) list"
  Requests :: "(string \<times> string) list"

record Container =
  Container_Name :: string
  Env :: "EnvVar list"
  Resources :: ResourceRequirements

record MetricTarget =
  Target_Value :: "Quantity option"
  AverageValue :: "Quantity option"
  AverageUtilization :: "int option"

record ResourceMetricSource =
  Resource_Name :: "ScaleMetric option"
  Resource_Target :: MetricTarget

record ExternalMetrics =
  Backend :: "MetricsBackend option"
  Query :: string

record ExternalMetricSource =
  Metric :: ExternalMetrics
  External_Target :: MetricTarget

record MetricsSpec =
  Metric_Type :: MetricSourceType
  Resource :: "ResourceMetricSource option"
  External :: "ExternalMetricSource option"

record AutoScalingSpec =
  Metrics :: "MetricsSpec list"

record DeploymentStrategy =
  Strategy_Type :: string

record ComponentExtensionSpec =
  ScaleTarget :: "int option"
  ScaleMetric :: "ScaleMetric option"
  AutoScaling :: "AutoScalingSpec option"
  DeploymentStrategy :: "DeploymentStrategy option"

record PredictorExtensionSpec =
  StorageURI :: "string option"
  Container :: Container

record ModelSpec =
  PredictorExtensionSpec :: PredictorExtensionSpec

record WorkerSpec =
  PipelineParallelSize :: "int option"
  TensorParallelSize :: "int option"
  Worker_Containers :: "Container list"

text \<open>
  Modelled from the spec: the \<^verbatim>\<open>Component\<close> interface and the structs that implement
  it are declared outside the validation file. A component has the variant fields of its
  implementation, of which the validation file reads the built-in model-framework server
  (\<^verbatim>\<open>Model\<close>) and the custom container (the container list, populated when it is not
  empty), and its extension settings (the embedded \<^verbatim>\<open>ComponentExtensionSpec\<close>). A
  workerSpec is not a variant of its own: a component with a workerSpec is a multi-node
  component that carries it in addition to its implementation, and multi-node validation
  asks for the storage URI of the built-in model next to the workerSpec.
\<close>

record ComponentSpec =
  Model :: "ModelSpec option"
  Containers :: "Container list"
  ComponentExtensionSpec :: ComponentExtensionSpec

record PredictorSpec = ComponentSpec +
  WorkerSpec :: "WorkerSpec option"

datatype ComponentImplementation =
    BuiltInModel ModelSpec
  | CustomContainer "Container list"

record InferenceService =
  Name :: string
  Annotations :: annotations
  Predictor :: PredictorSpec
  Transformer :: "ComponentSpec option"
  Explainer :: "ComponentSpec option"

subsection \<open>Constants and injected dependencies\<close>

text \<open>
  The packages \<^verbatim>\<open>constants\<close> and \<^verbatim>\<open>utils\<close> are outside the validation file, as are
  the metric names of package \<^verbatim>\<open>v1beta1\<close>. The validation functions take the constants
  as a record \<open>c\<close>, so that \<^verbatim>\<open>constants.AutoscalerClassKeda\<close> reads
  \<open>AutoscalerClassKeda c\<close>, and every result below holds for whatever values they have.
\<close>

record constants =
  AutoscalerClass :: string
  AutoscalerMetrics :: string
  TargetUtilizationPercentage :: string
  RawDeployment :: string
  AutoscalerClassHPA :: string
  AutoscalerClassKeda :: string
  AutoscalerClassExternal :: string
  AutoscalerAllowedClassList :: "string list"
  AutoscalerAllowedHPAMetricsList :: "string list"
  AutoscalerAllowedKEDAMetricsList :: "string list"
  AutoscalerAllowedKEDAMetricBackendList :: "string list"
  AutoScalerKPAMetricsAllowedList :: "string list"
  AutoScalerResource :: string
  AutoScalerExternal :: string
  MetricCPU :: ScaleMetric
  MetricMemory :: ScaleMetric
  MetricConcurrency :: ScaleMetric
  MetricRPS :: ScaleMetric
  PipelineParallelSizeEnvName :: string
  TensorParallelSizeEnvName :: string
  TransformerContainerName :: string
  CustomSpecStorageUriEnvVarKey :: string

text \<open>
  The functions the validation calls but does not define:
  \<^verbatim>\<open>utils.IsUnknownGpuResourceType\<close> (a Boolean or an error), the \<^verbatim>\<open>Validate\<close> method
  of a component implementation and the \<^verbatim>\<open>Validate\<close> method of the extension settings.
\<close>

record dependencies =
  IsUnknownGpuResourceType :: "ResourceRequirements \<Rightarrow> annotations \<Rightarrow> error + bool"
  Implementation_Validate :: "ComponentImplementation \<Rightarrow> error option"
  Extensions_Validate :: "ComponentExtensionSpec \<Rightarrow> error option"

text \<open>The two constants of the Knative autoscaling package that the file uses.\<close>

definition autoscaling_ClassAnnotationKey :: string where
  "autoscaling_ClassAnnotationKey = ''autoscaling.knative.dev/class''"

definition autoscaling_HPA :: string where
  "autoscaling_HPA = ''hpa.autoscaling.knative.dev''"

text \<open>Reading a Go map at a key it does not hold gives the empty string.\<close>

definition map_index :: "annotations \<Rightarrow> string \<Rightarrow> string" where
  "map_index m k = (case m k of None \<Rightarrow> [] | Some v \<Rightarrow> v)"

text \<open>
  Modelled from the spec: \<^verbatim>\<open>utils.GetEnvVarValue\<close> is the capability resolver
  \<^verbatim>\<open>LookupEnvVar(containerEnv, key) -> (value, found)\<close>: the value of the first
  variable of that name, and whether there is one.
\<close>

fun GetEnvVarValue :: "EnvVar list \<Rightarrow> string \<Rightarrow> string \<times> bool" where
  "GetEnvVarValue [] key = ([], False)"
| "GetEnvVarValue (envVar # envVars) key =
     (if EnvVar_Name envVar = key then (EnvVar_Value envVar, True)
      else GetEnvVarValue envVars key)"

text \<open>
  Modelled from the spec: \<^verbatim>\<open>utils.FirstNonNilError\<close> is outside the validation
  file; the first failure anywhere aborts the admission, so it returns the first non-nil
  error of the slice. The caller hands it a slice literal: Go evaluates every element of
  the slice before the call, so a panic in any of them is the outcome.
\<close>

fun FirstNonNilError :: "error option list \<Rightarrow> error option" where
  "FirstNonNilError [] = None"
| "FirstNonNilError (None # errs) = FirstNonNilError errs"
| "FirstNonNilError (Some e # errs) = Some e"

definition FirstNonNilError_of_slice :: "error option list \<Rightarrow> error option" where
  "FirstNonNilError_of_slice errs =
     (if Some NilPointerDereference \<in> set errs then Some NilPointerDereference
      else FirstNonNilError errs)"

subsection \<open>Metric vocabularies\<close>

definition validateKEDAMetrics :: "constants \<Rightarrow> ScaleMetric \<Rightarrow> error option" where
  "validateKEDAMetrics c metric =
     (if metric \<in> set (AutoscalerAllowedKEDAMetricsList c) then None
      else Some (UnsupportedKEDAMetricError metric))"

definition validateKEDAMetricBackends :: "constants \<Rightarrow> MetricsBackend \<Rightarrow> error option" where
  "validateKEDAMetricBackends c backend =
     (if backend \<in> set (AutoscalerAllowedKEDAMetricBackendList c) then None
      else Some (UnsupportedKEDAMetricBackendError backend))"

definition validateHPAMetrics :: "constants \<Rightarrow> ScaleMetric \<Rightarrow> error option" where
  "validateHPAMetrics c metric =
     (if metric \<in> set (AutoscalerAllowedHPAMetricsList c) then None
      else Some (UnsupportedMetricError metric))"

fun validateKPAMetrics_loop :: "string list \<Rightarrow> ScaleMetric \<Rightarrow> error option" where
  "validateKPAMetrics_loop [] metric = Some (UnsupportedMetricError metric)"
| "validateKPAMetrics_loop (item # items) metric =
     (if item = metric then None else validateKPAMetrics_loop items metric)"

definition validateKPAMetrics :: "constants \<Rightarrow> ScaleMetric \<Rightarrow> error option" where
  "validateKPAMetrics c metric = validateKPAMetrics_loop (AutoScalerKPAMetricsAllowedList c) metric"

subsection \<open>Per-component bounds evaluators\<close>

text \<open>
  In Go \<^verbatim>\<open>&&\<close> binds tighter than \<^verbatim>\<open>||\<close>: the first test of the two evaluators
  below is \<^verbatim>\<open>(metric == MetricCPU && target < 1) || target > 100\<close>.
\<close>

definition validateScalingHPACompExtension ::
    "constants \<Rightarrow> ComponentExtensionSpec \<Rightarrow> error option" where
  "validateScalingHPACompExtension c compExtSpec =
     (let metric = (case ScaleMetric compExtSpec of None \<Rightarrow> MetricCPU c | Some m \<Rightarrow> m) in
      case validateHPAMetrics c metric of
        Some err \<Rightarrow> Some err
      | None \<Rightarrow>
          (case ScaleTarget compExtSpec of
             None \<Rightarrow> None
           | Some target \<Rightarrow>
               if (metric = MetricCPU c \<and> target < 1) \<or> target > 100
               then Some TargetUtilizationPercentageError
               else if metric = MetricMemory c \<and> target < 1
               then Some TargetMemoryError
               else None))"

text \<open>
  One entry of \<^verbatim>\<open>autoScaling.metrics\<close> under the KEDA evaluator. The utilization
  pointer is dereferenced on both sides of the \<^verbatim>\<open>||\<close>, so a nil one panics whatever
  the resource name is.
\<close>

definition validateScalingKedaMetric :: "constants \<Rightarrow> MetricsSpec \<Rightarrow> error option flow" where
  "validateScalingKedaMetric c autoScaling =
     (if Metric_Type autoScaling = AutoScalerResource c then
        (case Resource autoScaling of
           None \<Rightarrow> Return (Some NilPointerDereference)
         | Some res \<Rightarrow>
            (case Resource_Name res of
               None \<Rightarrow> Return (Some NilPointerDereference)
             | Some resourceName \<Rightarrow>
                (case AverageUtilization (Resource_Target res) of
                   None \<Rightarrow> Return (Some NilPointerDereference)
                 | Some utilization \<Rightarrow>
                     if (resourceName = MetricCPU c \<and> utilization < 1) \<or> utilization > 100
                     then Return (Some TargetUtilizationPercentageKedaError)
                     else if resourceName = MetricMemory c then
                       (case AverageValue (Resource_Target res) of
                          None \<Rightarrow> Return (Some NilPointerDereference)
                        | Some v \<Rightarrow>
                            if v < 1048576 then Return (Some TargetMemoryError)
                            else FallThrough)
                     else FallThrough)))
      else if Metric_Type autoScaling = AutoScalerExternal c then
        (case External autoScaling of
           None \<Rightarrow> Return (Some NilPointerDereference)
         | Some ext \<Rightarrow>
             if Query (Metric ext) = [] then Return (Some EmptyQueryError)
             else if Target_Value (External_Target ext) = None then Return (Some EmptyThresholdError)
             else FallThrough)
      else FallThrough)"

fun validateScalingKedaMetrics :: "constants \<Rightarrow> MetricsSpec list \<Rightarrow> error option" where
  "validateScalingKedaMetrics c [] = None"
| "validateScalingKedaMetrics c (autoScaling # rest) =
     (case validateScalingKedaMetric c autoScaling of
        Return r \<Rightarrow> r
      | FallThrough \<Rightarrow> validateScalingKedaMetrics c rest)"

definition validateScalingKedaCompExtension ::
    "constants \<Rightarrow> ComponentExtensionSpec \<Rightarrow> error option" where
  "validateScalingKedaCompExtension c compExtSpec =
     (let metric = (case ScaleMetric compExtSpec of None \<Rightarrow> MetricCPU c | Some m \<Rightarrow> m);
          scaleTargetCheck =
            (case ScaleTarget compExtSpec of
               None \<Rightarrow> None
             | Some target \<Rightarrow>
                 if (metric = MetricCPU c \<and> target < 1) \<or> target > 100
                 then Some TargetUtilizationPercentageError
                 else if metric = MetricMemory c \<and> target < 1
                 then Some TargetMemoryError
                 else None)
      in case scaleTargetCheck of
           Some err \<Rightarrow> Some err
         | None \<Rightarrow>
            (case AutoScaling compExtSpec of
               None \<Rightarrow> None
             | Some a \<Rightarrow> validateScalingKedaMetrics c (Metrics a)))"

definition validateScalingKPACompExtension ::
    "constants \<Rightarrow> ComponentExtensionSpec \<Rightarrow> error option" where
  "validateScalingKPACompExtension c compExtSpec =
     (if DeploymentStrategy compExtSpec \<noteq> None then Some DeploymentStrategyError
      else
        let metric = (case ScaleMetric compExtSpec of None \<Rightarrow> MetricConcurrency c | Some m \<Rightarrow> m) in
        case validateKPAMetrics c metric of
          Some err \<Rightarrow> Some err
        | None \<Rightarrow>
            (case ScaleTarget compExtSpec of
               None \<Rightarrow> None
             | Some target \<Rightarrow>
                 if metric = MetricRPS c \<and> target < 1 then Some TargetRPSError else None))"

definition validateAutoScalingCompExtension ::
    "constants \<Rightarrow> annotations \<Rightarrow> ComponentExtensionSpec \<Rightarrow> error option" where
  "validateAutoScalingCompExtension c annotations compExtSpec =
     (let deploymentMode = map_index annotations ''serving.kserve.io/deploymentMode'';
          annotationClass = map_index annotations autoscaling_ClassAnnotationKey;
          autoscalerClass = map_index annotations (AutoscalerClass c)
      in if deploymentMode = RawDeployment c \<or> annotationClass = autoscaling_HPA
         then validateScalingHPACompExtension c compExtSpec
         else if deploymentMode = RawDeployment c \<or> autoscalerClass = AutoscalerClassKeda c
         then validateScalingKedaCompExtension c compExtSpec
         else validateScalingKPACompExtension c compExtSpec)"

subsection \<open>The name grammar\<close>

text \<open>
  The name format is the regular expression \<^verbatim>\<open>[a-z]([-a-z0-9]*[a-z0-9])?\<close>, compiled
  between \<^verbatim>\<open>^\<close> and \<^verbatim>\<open>$\<close>. Regular expressions are a datatype; a character class
  is a list of ranges; \<open>Zero\<close>, \<open>One\<close> and \<open>Alt\<close> are there for the derivatives. Go's
  matcher is modelled by Brzozowski derivatives, and \<open>lang\<close> is the set of strings an
  expression denotes.
\<close>

datatype regexp =
    Zero
  | One
  | Class "(char \<times> char) list"
  | Alt regexp regexp
  | Times regexp regexp
  | Star regexp
  | Quest regexp

definition in_class :: "char \<Rightarrow> (char \<times> char) list \<Rightarrow> bool" where
  "in_class ch ranges =
     list_ex (\<lambda>(lo, hi). (of_char lo :: nat) \<le> of_char ch \<and> (of_char ch :: nat) \<le> of_char hi) ranges"

fun nullable :: "regexp \<Rightarrow> bool" where
  "nullable Zero = False"
| "nullable One = True"
| "nullable (Class ranges) = False"
| "nullable (Alt r s) = (nullable r \<or> nullable s)"
| "nullable (Times r s) = (nullable r \<and> nullable s)"
| "nullable (Star r) = True"
| "nullable (Quest r) = True"

fun deriv :: "char \<Rightarrow> regexp \<Rightarrow> regexp" where
  "deriv ch Zero = Zero"
| "deriv ch One = Zero"
| "deriv ch (Class ranges) = (if in_class ch ranges then One else Zero)"
| "deriv ch (Alt r s) = Alt (deriv ch r) (deriv ch s)"
| "deriv ch (Times r s) =
     (if nullable r then Alt (Times (deriv ch r) s) (deriv ch s) else Times (deriv ch r) s)"
| "deriv ch (Star r) = Times (deriv ch r) (Star r)"
| "deriv ch (Quest r) = deriv ch r"

fun derivs :: "string \<Rightarrow> regexp \<Rightarrow> regexp" where
  "derivs [] r = r"
| "derivs (ch # s) r = derivs s (deriv ch r)"

text \<open>\<^verbatim>\<open>MatchString\<close> of an expression compiled between \<^verbatim>\<open>^\<close> and \<^verbatim>\<open>$\<close>: the whole
  string has to match.\<close>

definition MatchString :: "regexp \<Rightarrow> string \<Rightarrow> bool" where
  "MatchString r s = nullable (derivs s r)"

definition conc :: "string set \<Rightarrow> string set \<Rightarrow> string set" where
  "conc A B = {u @ v | u v. u \<in> A \<and> v \<in> B}"

inductive_set star :: "string set \<Rightarrow> string set" for A :: "string set" where
  star_empty: "[] \<in> star A"
| star_step: "u \<in> A \<Longrightarrow> v \<in> star A \<Longrightarrow> u @ v \<in> star A"

fun lang :: "regexp \<Rightarrow> string set" where
  "lang Zero = {}"
| "lang One = {[]}"
| "lang (Class ranges) = {[ch] | ch. in_class ch ranges}"
| "lang (Alt r s) = lang r \<union> lang s"
| "lang (Times r s) = conc (lang r) (lang s)"
| "lang (Star r) = star (lang r)"
| "lang (Quest r) = insert [] (lang r)"

definition lower :: "(char \<times> char) list" where
  "lower = [(CHR ''a'', CHR ''z'')]"

definition lower_digit :: "(char \<times> char) list" where
  "lower_digit = [(CHR ''a'', CHR ''z''), (CHR ''0'', CHR ''9'')]"

definition hyphen_lower_digit :: "(char \<times> char) list" where
  "hyphen_lower_digit = [(CHR ''-'', CHR ''-''), (CHR ''a'', CHR ''z''), (CHR ''0'', CHR ''9'')]"

definition IsvcNameFmt :: regexp where
  "IsvcNameFmt = Times (Class lower) (Quest (Times (Star (Class hyphen_lower_digit)) (Class lower_digit)))"

definition validateInferenceServiceName :: "InferenceService \<Rightarrow> error option" where
  "validateInferenceServiceName isvc =
     (if \<not> MatchString IsvcNameFmt (Name isvc) then Some (InvalidISVCNameFormatError (Name isvc))
      else None)"

subsection \<open>Autoscaler-class resolution\<close>

text \<open>
  The loop over \<^verbatim>\<open>autoScaling.metrics\<close> (lines 256 to 269): every branch of the
  switch in its body returns, so the body runs for the first entry only, and an empty
  sequence falls through.
\<close>

fun validateKedaAutoScalingMetrics ::
    "constants \<Rightarrow> string \<Rightarrow> MetricsSpec list \<Rightarrow> error option flow" where
  "validateKedaAutoScalingMetrics c class [] = FallThrough"
| "validateKedaAutoScalingMetrics c class (autoScaling # rest) =
     (let autoScalingType = Metric_Type autoScaling in
      if autoScalingType = AutoScalerResource c then
        (case Resource autoScaling of
           None \<Rightarrow> Return (Some NilPointerDereference)
         | Some res \<Rightarrow>
            (case Resource_Name res of
               None \<Rightarrow> Return (Some NilPointerDereference)
             | Some resourceName \<Rightarrow> Return (validateKEDAMetrics c resourceName)))
      else if autoScalingType = AutoScalerExternal c then
        (case External autoScaling of
           None \<Rightarrow> Return (Some NilPointerDereference)
         | Some ext \<Rightarrow>
            (case Backend (Metric ext) of
               None \<Rightarrow> Return (Some NilPointerDereference)
             | Some metricBackend \<Rightarrow> Return (validateKEDAMetricBackends c metricBackend)))
      else Return (Some (UnknownAutoScalingTypeError class autoScalingType)))"

text \<open>The switch on the class (lines 233 to 275), entered when the class equals an
  item of the allow-list. The KEDA case has no final return.\<close>

definition autoscalerClassSwitch ::
    "constants \<Rightarrow> InferenceService \<Rightarrow> string \<Rightarrow> error option flow" where
  "autoscalerClassSwitch c isvc class =
     (if class = AutoscalerClassHPA c then
        (case Annotations isvc (AutoscalerMetrics c) of
           Some metric \<Rightarrow> Return (validateHPAMetrics c metric)
         | None \<Rightarrow> Return None)
      else if class = AutoscalerClassKeda c then
        (let componentExtensionSpec = ComponentExtensionSpec (Predictor isvc) in
         if ScaleMetric componentExtensionSpec \<noteq> None \<and> AutoScaling componentExtensionSpec \<noteq> None
         then Return (Some ScaleMetricAutoScalingConflictError)
         else
           (case ScaleMetric componentExtensionSpec of
              Some metric \<Rightarrow> Return (validateKEDAMetrics c metric)
            | None \<Rightarrow>
               (case AutoScaling componentExtensionSpec of
                  Some a \<Rightarrow> validateKedaAutoScalingMetrics c class (Metrics a)
                | None \<Rightarrow> FallThrough)))
      else if class = AutoscalerClassExternal c then Return None
      else Return (Some (UnknownAutoscalerClassError class)))"

fun autoscalerAllowedClassLoop ::
    "constants \<Rightarrow> InferenceService \<Rightarrow> string \<Rightarrow> string list \<Rightarrow> error option flow" where
  "autoscalerAllowedClassLoop c isvc class [] = FallThrough"
| "autoscalerAllowedClassLoop c isvc class (item # items) =
     (if class = item then
        (case autoscalerClassSwitch c isvc class of
           Return r \<Rightarrow> Return r
         | FallThrough \<Rightarrow> autoscalerAllowedClassLoop c isvc class items)
      else autoscalerAllowedClassLoop c isvc class items)"

definition validateInferenceServiceAutoscaler ::
    "constants \<Rightarrow> InferenceService \<Rightarrow> error option" where
  "validateInferenceServiceAutoscaler c isvc =
     (case Annotations isvc (AutoscalerClass c) of
        Some v \<Rightarrow>
          (case autoscalerAllowedClassLoop c isvc v (AutoscalerAllowedClassList c) of
             Return r \<Rightarrow> r
           | FallThrough \<Rightarrow> Some (UnsupportedAutoscalerClassError v))
      | None \<Rightarrow> None)"

subsection \<open>Target utilization percentage\<close>

text \<open>
  \<^verbatim>\<open>strconv.Atoi\<close>: an optional sign, then one or more decimal digits, and a value
  that fits a 64-bit integer; anything else is an error (\<open>None\<close>).
\<close>

definition is_digit :: "char \<Rightarrow> bool" where
  "is_digit ch = (48 \<le> (of_char ch :: nat) \<and> (of_char ch :: nat) \<le> 57)"

definition digits_value :: "string \<Rightarrow> int" where
  "digits_value ds = foldl (\<lambda>a ch. 10 * a + (int (of_char ch) - 48)) 0 ds"

definition Atoi :: "string \<Rightarrow> int option" where
  "Atoi s =
     (let neg = (s \<noteq> [] \<and> hd s = CHR ''-'');
          ds = (if s \<noteq> [] \<and> (hd s = CHR ''+'' \<or> hd s = CHR ''-'') then tl s else s);
          v = (if neg then - digits_value ds else digits_value ds)
      in if ds = [] \<or> \<not> list_all is_digit ds then None
         else if v < - (2 ^ 63) \<or> 2 ^ 63 \<le> v then None
         else Some v)"

definition validateAutoscalerTargetUtilizationPercentage ::
    "constants \<Rightarrow> InferenceService \<Rightarrow> error option" where
  "validateAutoscalerTargetUtilizationPercentage c isvc =
     (case Annotations isvc (TargetUtilizationPercentage c) of
        Some v \<Rightarrow>
          (case Atoi v of
             None \<Rightarrow> Some TargetUtilizationPercentageError
           | Some t \<Rightarrow> if t < 1 \<or> t > 100 then Some TargetUtilizationPercentageError else None)
      | None \<Rightarrow> None)"

subsection \<open>Multi-node validation\<close>

text \<open>\<^verbatim>\<open>strings.Split(s, "://")[0]\<close>: the text before the first \<^verbatim>\<open>://\<close>, or all of
  \<open>s\<close> when there is none.\<close>

fun before_first :: "string \<Rightarrow> string \<Rightarrow> string" where
  "before_first sep [] = []"
| "before_first sep (ch # s) = (if prefix sep (ch # s) then [] else ch # before_first sep s)"

definition gpuResourceTypeCheck ::
    "dependencies \<Rightarrow> InferenceService \<Rightarrow> ResourceRequirements \<Rightarrow> error option" where
  "gpuResourceTypeCheck d isvc resources =
     (case IsUnknownGpuResourceType d resources (Annotations isvc) of
        Inl err \<Rightarrow> Some err
      | Inr isUnknownGPUType \<Rightarrow>
          if isUnknownGPUType then Some (InvalidUnknownGPUTypeError (Name isvc)) else None)"

fun workerContainersLoop ::
    "dependencies \<Rightarrow> InferenceService \<Rightarrow> Container list \<Rightarrow> error option" where
  "workerContainersLoop d isvc [] = None"
| "workerContainersLoop d isvc (container # rest) =
     (case gpuResourceTypeCheck d isvc (Resources container) of
        Some err \<Rightarrow> Some err
      | None \<Rightarrow> workerContainersLoop d isvc rest)"

text \<open>The block guarded by \<^verbatim>\<open>Model != nil\<close> (lines 151 to 176).\<close>

definition validateMultiNodeModel ::
    "dependencies \<Rightarrow> constants \<Rightarrow> InferenceService \<Rightarrow> ModelSpec \<Rightarrow> error option" where
  "validateMultiNodeModel d c isvc model =
     (let env = Env (Container (PredictorExtensionSpec model)) in
      if snd (GetEnvVarValue env (PipelineParallelSizeEnvName c))
      then Some (DisallowedWorkerSpecPipelineParallelSizeEnvError (Name isvc))
      else if snd (GetEnvVarValue env (TensorParallelSizeEnvName c))
      then Some (DisallowedWorkerSpecTensorParallelSizeEnvError (Name isvc))
      else
        (case gpuResourceTypeCheck d isvc (Resources (Container (PredictorExtensionSpec model))) of
           Some err \<Rightarrow> Some err
         | None \<Rightarrow>
            (case StorageURI (PredictorExtensionSpec model) of
               None \<Rightarrow> Some (MissingStorageURI (Name isvc))
             | Some uri \<Rightarrow>
                 let storageProtocol = before_first ''://'' uri in
                 if storageProtocol \<noteq> ''pvc''
                 then Some (InvalidNotSupportedStorageURIProtocolError (Name isvc) storageProtocol)
                 else if map_index (Annotations isvc) (AutoscalerClass c) \<noteq> AutoscalerClassExternal c
                 then Some (InvalidAutoScalerError (Name isvc)
                              (map_index (Annotations isvc) (AutoscalerClass c)))
                 else None)))"

text \<open>The two bounds on the worker topology (lines 179 to 186).\<close>

definition pipelineParallelSizeCheck :: "InferenceService \<Rightarrow> WorkerSpec \<Rightarrow> error option" where
  "pipelineParallelSizeCheck isvc w =
     (case PipelineParallelSize w of
        None \<Rightarrow> None
      | Some pps \<Rightarrow>
          if pps < 2 then Some (InvalidWorkerSpecPipelineParallelSizeValueError (Name isvc) pps)
          else None)"

definition tensorParallelSizeCheck :: "InferenceService \<Rightarrow> WorkerSpec \<Rightarrow> error option" where
  "tensorParallelSizeCheck isvc w =
     (case TensorParallelSize w of
        None \<Rightarrow> None
      | Some tps \<Rightarrow>
          if tps < 1 then Some (InvalidWorkerSpecTensorParallelSizeValueError (Name isvc) tps)
          else None)"

definition validateMultiNodeVariables ::
    "dependencies \<Rightarrow> constants \<Rightarrow> InferenceService \<Rightarrow> error option" where
  "validateMultiNodeVariables d c isvc =
     (case WorkerSpec (Predictor isvc) of
        None \<Rightarrow> None
      | Some w \<Rightarrow>
          if length (Worker_Containers w) > 1
          then Some (DisallowedMultipleContainersInWorkerSpecError (Name isvc))
          else
            (case (case Model (Predictor isvc) of
                     None \<Rightarrow> None
                   | Some model \<Rightarrow> validateMultiNodeModel d c isvc model) of
               Some err \<Rightarrow> Some err
             | None \<Rightarrow>
                 (case pipelineParallelSizeCheck isvc w of
                    Some err \<Rightarrow> Some err
                  | None \<Rightarrow>
                     (case tensorParallelSizeCheck isvc w of
                        Some err \<Rightarrow> Some err
                      | None \<Rightarrow> workerContainersLoop d isvc (Worker_Containers w)))))"

subsection \<open>Collocation\<close>

text \<open>The inner loop over the environment of the transformer container.\<close>

fun transformerEnvLoop :: "constants \<Rightarrow> EnvVar list \<Rightarrow> error option" where
  "transformerEnvLoop c [] = None"
| "transformerEnvLoop c (env # rest) =
     (if EnvVar_Name env = CustomSpecStorageUriEnvVarKey c
      then Some StorageUriPresentInTransformerError
      else transformerEnvLoop c rest)"

text \<open>The outer loop: it stops (\<^verbatim>\<open>break\<close>) after the first container of that name.\<close>

fun collocationContainersLoop :: "constants \<Rightarrow> Container list \<Rightarrow> error option" where
  "collocationContainersLoop c [] = None"
| "collocationContainersLoop c (container # rest) =
     (if Container_Name container = TransformerContainerName c
      then transformerEnvLoop c (Env container)
      else collocationContainersLoop c rest)"

definition validateCollocationStorageURI :: "constants \<Rightarrow> PredictorSpec \<Rightarrow> error option" where
  "validateCollocationStorageURI c predictorSpec =
     collocationContainersLoop c (Containers predictorSpec)"

subsection \<open>Components and the orchestrator\<close>

text \<open>
  Modelled from the spec: \<^verbatim>\<open>GetImplementations\<close> is declared outside the validation
  file; it yields the populated implementation variants of a component, one for each
  variant field that is set.
\<close>

definition GetImplementations :: "ComponentSpec \<Rightarrow> ComponentImplementation list" where
  "GetImplementations component =
     (case Model component of None \<Rightarrow> [] | Some model \<Rightarrow> [BuiltInModel model])
     @ (if Containers component = [] then [] else [CustomContainer (Containers component)])"

text \<open>
  Modelled from the spec: \<^verbatim>\<open>validateExactlyOneImplementation\<close> is declared outside the
  validation file. Exactly one implementation variant must be populated; zero or several
  populated variants is a rejection naming the component.
\<close>

definition validateExactlyOneImplementation ::
    "ComponentRole \<Rightarrow> ComponentSpec \<Rightarrow> error option" where
  "validateExactlyOneImplementation role component =
     (if length (GetImplementations component) = 1 then None
      else Some (ExactlyOneImplementationError role))"

text \<open>
  Modelled from the spec: \<^verbatim>\<open>GetImplementation\<close> yields the concrete serving backend
  chosen for the component, the first populated variant; with none populated it is nil,
  and calling \<^verbatim>\<open>Validate\<close> on it panics.
\<close>

definition GetImplementation_Validate :: "dependencies \<Rightarrow> ComponentSpec \<Rightarrow> error option" where
  "GetImplementation_Validate d component =
     (case GetImplementations component of
        [] \<Rightarrow> Some NilPointerDereference
      | impl # _ \<Rightarrow> Implementation_Validate d impl)"

text \<open>The slice handed to \<^verbatim>\<open>utils.FirstNonNilError\<close> (lines 133 to 137).\<close>

definition implementationAndExtensionRules ::
    "dependencies \<Rightarrow> constants \<Rightarrow> annotations \<Rightarrow> ComponentSpec \<Rightarrow> error option" where
  "implementationAndExtensionRules d c annotations component =
     FirstNonNilError_of_slice
       [GetImplementation_Validate d component,
        Extensions_Validate d (ComponentExtensionSpec component),
        validateAutoScalingCompExtension c annotations (ComponentExtensionSpec component)]"

fun componentsLoop ::
    "dependencies \<Rightarrow> constants \<Rightarrow> annotations \<Rightarrow> (ComponentRole \<times> ComponentSpec option) list
       \<Rightarrow> error option" where
  "componentsLoop d c annotations [] = None"
| "componentsLoop d c annotations ((role, None) # rest) = componentsLoop d c annotations rest"
| "componentsLoop d c annotations ((role, Some component) # rest) =
     (case validateExactlyOneImplementation role component of
        Some err \<Rightarrow> Some err
      | None \<Rightarrow>
         (case implementationAndExtensionRules d c annotations component of
            Some err \<Rightarrow> Some err
          | None \<Rightarrow> componentsLoop d c annotations rest))"

definition components :: "InferenceService \<Rightarrow> (ComponentRole \<times> ComponentSpec option) list" where
  "components isvc =
     [(PredictorComponent, Some (ComponentSpec.truncate (Predictor isvc))),
      (TransformerComponent, Transformer isvc),
      (ExplainerComponent, Explainer isvc)]"

text \<open>The result is the pair of the warnings, which stay empty, and the error.\<close>

definition validateInferenceService ::
    "dependencies \<Rightarrow> constants \<Rightarrow> InferenceService \<Rightarrow> string list \<times> error option" where
  "validateInferenceService d c isvc =
     (let allWarnings = []; annotations = Annotations isvc in
      case validateInferenceServiceName isvc of
        Some err \<Rightarrow> (allWarnings, Some err)
      | None \<Rightarrow>
      (case validateInferenceServiceAutoscaler c isvc of
        Some err \<Rightarrow> (allWarnings, Some err)
      | None \<Rightarrow>
      (case validateAutoscalerTargetUtilizationPercentage c isvc of
        Some err \<Rightarrow> (allWarnings, Some err)
      | None \<Rightarrow>
      (case validateMultiNodeVariables d c isvc of
        Some err \<Rightarrow> (allWarnings, Some err)
      | None \<Rightarrow>
      (case validateCollocationStorageURI c (Predictor isvc) of
        Some err \<Rightarrow> (allWarnings, Some err)
      | None \<Rightarrow>
      (case componentsLoop d c annotations (components isvc) of
        Some err \<Rightarrow> (allWarnings, Some err)
      | None \<Rightarrow> (allWarnings, None)))))))"

subsection \<open>What "all other rules pass" means\<close>

text \<open>The five rules the orchestrator runs before it looks at the components.\<close>

definition rulesBeforeComponentsPass ::
    "dependencies \<Rightarrow> constants \<Rightarrow> InferenceService \<Rightarrow> bool" where
  "rulesBeforeComponentsPass d c isvc =
     (validateInferenceServiceName isvc = None
      \<and> validateInferenceServiceAutoscaler c isvc = None
      \<and> validateAutoscalerTargetUtilizationPercentage c isvc = None
      \<and> validateMultiNodeVariables d c isvc = None
      \<and> validateCollocationStorageURI c (Predictor isvc) = None)"

text \<open>A component passes when it has exactly one populated variant and its
  implementation-level rule, its extension-level rule and its scaling bounds pass; a
  slot passes when it is nil or its component passes.\<close>

definition componentPasses ::
    "dependencies \<Rightarrow> constants \<Rightarrow> annotations \<Rightarrow> ComponentSpec \<Rightarrow> bool" where
  "componentPasses d c annotations component =
     (length (GetImplementations component) = 1
      \<and> GetImplementation_Validate d component = None
      \<and> Extensions_Validate d (ComponentExtensionSpec component) = None
      \<and> validateAutoScalingCompExtension c annotations (ComponentExtensionSpec component) = None)"

definition slotPasses ::
    "dependencies \<Rightarrow> constants \<Rightarrow> annotations \<Rightarrow> ComponentSpec option \<Rightarrow> bool" where
  "slotPasses d c annotations slot =
     (case slot of None \<Rightarrow> True | Some component \<Rightarrow> componentPasses d c annotations component)"

subsection \<open>A concrete configuration\<close>

text \<open>
  Modelled from the spec: the configuration the spec names, for running the functions
  on concrete inputs: the class allow-list \<^verbatim>\<open>{HPA, KEDA, KPA, External}\<close>, the metrics
  CPU, Memory, Concurrency and RPS, the KPA-allowed set (Concurrency, RPS), the entry tags
  \<^verbatim>\<open>Resource\<close> and \<^verbatim>\<open>External\<close>. The spellings are those of a deployment; no general
  theorem below depends on them.
\<close>

definition kserve_constants :: constants where
  "kserve_constants =
     \<lparr> AutoscalerClass = ''serving.kserve.io/autoscalerClass'',
       AutoscalerMetrics = ''serving.kserve.io/metrics'',
       TargetUtilizationPercentage = ''serving.kserve.io/targetUtilizationPercentage'',
       RawDeployment = ''RawDeployment'',
       AutoscalerClassHPA = ''hpa'',
       AutoscalerClassKeda = ''keda'',
       AutoscalerClassExternal = ''external'',
       AutoscalerAllowedClassList = [''hpa'', ''keda'', ''kpa'', ''external''],
       AutoscalerAllowedHPAMetricsList = [''cpu'', ''memory''],
       AutoscalerAllowedKEDAMetricsList = [''cpu'', ''memory''],
       AutoscalerAllowedKEDAMetricBackendList = [''prometheus'', ''graphite''],
       AutoScalerKPAMetricsAllowedList = [''concurrency'', ''rps''],
       AutoScalerResource = ''Resource'',
       AutoScalerExternal = ''External'',
       MetricCPU = ''cpu'',
       MetricMemory = ''memory'',
       MetricConcurrency = ''concurrency'',
       MetricRPS = ''rps'',
       PipelineParallelSizeEnvName = ''PIPELINE_PARALLEL_SIZE'',
       TensorParallelSizeEnvName = ''TENSOR_PARALLEL_SIZE'',
       TransformerContainerName = ''transformer-container'',
       CustomSpecStorageUriEnvVarKey = ''STORAGE_URI'' \<rparr>"

text \<open>Dependencies that accept everything: every GPU type is known and the
  implementation-level and extension-level validations pass.\<close>

definition permissive_dependencies :: dependencies where
  "permissive_dependencies =
     \<lparr> IsUnknownGpuResourceType = (\<lambda>resources annotations. Inr False),
       Implementation_Validate = (\<lambda>impl. None),
       Extensions_Validate = (\<lambda>ext. None) \<rparr>"

definition empty_extension :: ComponentExtensionSpec where
  "empty_extension =
     \<lparr> ScaleTarget = None, ScaleMetric = None, AutoScaling = None, DeploymentStrategy = None \<rparr>"

definition no_resources :: ResourceRequirements where
  "no_resources = \<lparr> Limits = [], Requests = [] \<rparr>"

definition predictor_container :: Container where
  "predictor_container =
     \<lparr> Container_Name = ''kserve-container'', Env = [], Resources = no_resources \<rparr>"

definition multinode_model :: "string option \<Rightarrow> EnvVar list \<Rightarrow> ModelSpec" where
  "multinode_model uri env =
     \<lparr> PredictorExtensionSpec =
         \<lparr> StorageURI = uri,
           Container = \<lparr> Container_Name = ''kserve-container'', Env = env,
                         Resources = no_resources \<rparr> \<rparr> \<rparr>"

definition basic_model :: ModelSpec where
  "basic_model = multinode_model (Some ''pvc://models/a'') []"

definition basic_predictor :: PredictorSpec where
  "basic_predictor =
     \<lparr> Model = Some basic_model, Containers = [],
       ComponentExtensionSpec = empty_extension, WorkerSpec = None \<rparr>"

definition empty_component :: ComponentSpec where
  "empty_component =
     \<lparr> Model = None, Containers = [], ComponentExtensionSpec = empty_extension \<rparr>"

definition basic_isvc :: InferenceService where
  "basic_isvc =
     \<lparr> Name = ''my-model'', Annotations = Map.empty, Predictor = basic_predictor,
       Transformer = None, Explainer = None \<rparr>"

definition keda_annotations :: annotations where
  "keda_annotations = [''serving.kserve.io/autoscalerClass'' \<mapsto> ''keda'']"

definition hpa_annotations :: annotations where
  "hpa_annotations = [''serving.kserve.io/autoscalerClass'' \<mapsto> ''hpa'']"

definition resource_metric :: "string \<Rightarrow> MetricsSpec" where
  "resource_metric name =
     \<lparr> Metric_Type = ''Resource'',
       Resource = Some \<lparr> Resource_Name = Some name,
                         Resource_Target = \<lparr> Target_Value = None, AverageValue = None,
                                             AverageUtilization = Some 50 \<rparr> \<rparr>,
       External = None \<rparr>"

definition untagged_metric :: MetricsSpec where
  "untagged_metric = \<lparr> Metric_Type = ''PodMetric'', Resource = None, External = None \<rparr>"

definition keda_isvc :: "ComponentExtensionSpec \<Rightarrow> InferenceService" where
  "keda_isvc ext =
     basic_isvc\<lparr> Annotations := keda_annotations,
                 Predictor := basic_predictor\<lparr> ComponentExtensionSpec := ext \<rparr> \<rparr>"

definition both_set_extension :: ComponentExtensionSpec where
  "both_set_extension =
     empty_extension\<lparr> ScaleMetric := Some ''cpu'',
                       AutoScaling := Some \<lparr> Metrics = [resource_metric ''cpu''] \<rparr> \<rparr>"

definition both_set_transformer :: ComponentSpec where
  "both_set_transformer =
     \<lparr> Model = None, Containers = [predictor_container],
       ComponentExtensionSpec = both_set_extension \<rparr>"

definition worker_container :: Container where
  "worker_container =
     \<lparr> Container_Name = ''worker-container'', Env = [], Resources = no_resources \<rparr>"

definition worker_spec :: WorkerSpec where
  "worker_spec =
     \<lparr> PipelineParallelSize = Some 2, TensorParallelSize = Some 1,
       Worker_Containers = [worker_container] \<rparr>"

definition multinode_isvc :: "ModelSpec option \<Rightarrow> InferenceService" where
  "multinode_isvc model =
     basic_isvc\<lparr> Annotations := hpa_annotations,
                 Predictor := basic_predictor\<lparr> Model := model, WorkerSpec := Some worker_spec \<rparr> \<rparr>"

definition transformer_container :: "EnvVar list \<Rightarrow> Container" where
  "transformer_container env =
     \<lparr> Container_Name = ''transformer-container'', Env = env, Resources = no_resources \<rparr>"

definition storage_uri_env :: EnvVar where
  "storage_uri_env = \<lparr> EnvVar_Name = ''STORAGE_URI'', EnvVar_Value = ''pvc://models/a'' \<rparr>"

definition raw_keda_annotations :: annotations where
  "raw_keda_annotations =
     [''serving.kserve.io/deploymentMode'' \<mapsto> ''RawDeployment'',
      ''serving.kserve.io/autoscalerClass'' \<mapsto> ''keda'']"

section \<open>Auxiliary facts\<close>

subsection \<open>The matcher decides the language of the expression\<close>

lemma Nil_in_conc: "[] \<in> conc A B \<longleftrightarrow> [] \<in> A \<and> [] \<in> B"
  by (auto simp: conc_def)

lemma Cons_in_conc:
  "ch # w \<in> conc A B \<longleftrightarrow>
     (\<exists>u v. w = u @ v \<and> ch # u \<in> A \<and> v \<in> B) \<or> ([] \<in> A \<and> ch # w \<in> B)"
proof
  assume "ch # w \<in> conc A B"
  then obtain x y where xy: "ch # w = x @ y" "x \<in> A" "y \<in> B"
    by (auto simp: conc_def)
  show "(\<exists>u v. w = u @ v \<and> ch # u \<in> A \<and> v \<in> B) \<or> ([] \<in> A \<and> ch # w \<in> B)"
  proof (cases x)
    case Nil
    with xy show ?thesis by simp
  next
    case (Cons a u)
    with xy have "w = u @ y" "ch # u \<in> A" by simp_all
    with xy show ?thesis by blast
  qed
next
  assume "(\<exists>u v. w = u @ v \<and> ch # u \<in> A \<and> v \<in> B) \<or> ([] \<in> A \<and> ch # w \<in> B)"
  then show "ch # w \<in> conc A B"
  proof
    assume "\<exists>u v. w = u @ v \<and> ch # u \<in> A \<and> v \<in> B"
    then obtain u v where "w = u @ v" "ch # u \<in> A" "v \<in> B" by blast
    then have "ch # w = (ch # u) @ v" by simp
    with \<open>ch # u \<in> A\<close> \<open>v \<in> B\<close> show ?thesis unfolding conc_def by blast
  next
    assume "[] \<in> A \<and> ch # w \<in> B"
    then have "ch # w = [] @ (ch # w)" "[] \<in> A" "ch # w \<in> B" by simp_all
    then show ?thesis unfolding conc_def by blast
  qed
qed

lemma star_Cons_split:
  assumes "x \<in> star A" and "x = ch # w"
  shows "\<exists>u v. w = u @ v \<and> ch # u \<in> A \<and> v \<in> star A"
  using assms
proof (induction arbitrary: w rule: star.induct)
  case star_empty
  then show ?case by simp
next
  case (star_step u v)
  show ?case
  proof (cases u)
    case Nil
    with star_step show ?thesis by simp
  next
    case (Cons a u')
    with star_step.prems have "a = ch" "w = u' @ v" by simp_all
    with Cons star_step.hyps show ?thesis by blast
  qed
qed

lemma Cons_in_star:
  "ch # w \<in> star A \<longleftrightarrow> (\<exists>u v. w = u @ v \<and> ch # u \<in> A \<and> v \<in> star A)"
proof
  assume "ch # w \<in> star A"
  then show "\<exists>u v. w = u @ v \<and> ch # u \<in> A \<and> v \<in> star A"
    by (rule star_Cons_split) simp
next
  assume "\<exists>u v. w = u @ v \<and> ch # u \<in> A \<and> v \<in> star A"
  then obtain u v where "w = u @ v" "ch # u \<in> A" "v \<in> star A" by blast
  then have "(ch # u) @ v \<in> star A" by (blast intro: star_step)
  with \<open>w = u @ v\<close> show "ch # w \<in> star A" by simp
qed

lemma nullable_lang: "nullable r \<longleftrightarrow> [] \<in> lang r"
  by (induction r) (auto simp: Nil_in_conc intro: star_empty)

lemma conc_deriv:
  assumes "\<And>u. u \<in> lang (deriv ch r) \<longleftrightarrow> ch # u \<in> lang r"
  shows "w \<in> conc (lang (deriv ch r)) B \<longleftrightarrow> (\<exists>u v. w = u @ v \<and> ch # u \<in> lang r \<and> v \<in> B)"
  unfolding conc_def using assms by blast

lemma lang_deriv: "w \<in> lang (deriv ch r) \<longleftrightarrow> ch # w \<in> lang r"
proof (induction r arbitrary: w)
  case (Times r s)
  show ?case
    by (simp add: Cons_in_conc nullable_lang conc_deriv [of ch r, OF Times.IH(1)] Times.IH(2))
next
  case (Star r)
  show ?case
    by (simp add: Cons_in_star conc_deriv [of ch r, OF Star.IH])
qed auto

lemma nullable_derivs: "nullable (derivs s r) \<longleftrightarrow> s \<in> lang r"
  by (induction s arbitrary: r) (simp_all add: nullable_lang lang_deriv)

lemma MatchString_lang: "MatchString r s \<longleftrightarrow> s \<in> lang r"
  by (simp add: MatchString_def nullable_derivs)

lemma star_Class: "w \<in> star (lang (Class ranges)) \<longleftrightarrow> (\<forall>x\<in>set w. in_class x ranges)"
proof
  assume "w \<in> star (lang (Class ranges))"
  then show "\<forall>x\<in>set w. in_class x ranges"
    by (induction rule: star.induct) auto
next
  assume "\<forall>x\<in>set w. in_class x ranges"
  then show "w \<in> star (lang (Class ranges))"
  proof (induction w)
    case Nil
    show ?case by (rule star_empty)
  next
    case (Cons x w)
    then have "[x] \<in> lang (Class ranges)" "w \<in> star (lang (Class ranges))" by simp_all
    then have "[x] @ w \<in> star (lang (Class ranges))" by (rule star_step)
    then show ?case by simp
  qed
qed

lemma lang_IsvcNameFmt:
  "s \<in> lang IsvcNameFmt \<longleftrightarrow>
     (\<exists>ch w. s = ch # w \<and> in_class ch lower \<and>
        (w = [] \<or> ((\<forall>x\<in>set (butlast w). in_class x hyphen_lower_digit) \<and> in_class (last w) lower_digit)))"
  (is "?L \<longleftrightarrow> ?R")
proof
  assume ?L
  then obtain x t where xt: "s = x @ t" "x \<in> lang (Class lower)"
      "t \<in> lang (Quest (Times (Star (Class hyphen_lower_digit)) (Class lower_digit)))"
    unfolding IsvcNameFmt_def lang.simps(5) conc_def by blast
  then obtain ch where s: "s = ch # t" "in_class ch lower"
    by auto
  from xt(3) have t: "t = [] \<or> t \<in> conc (star (lang (Class hyphen_lower_digit))) (lang (Class lower_digit))"
    by simp
  from t show ?R
  proof
    assume "t = []"
    with s show ?R by simp
  next
    assume "t \<in> conc (star (lang (Class hyphen_lower_digit))) (lang (Class lower_digit))"
    then obtain u v where "t = u @ v" "u \<in> star (lang (Class hyphen_lower_digit))"
        "v \<in> lang (Class lower_digit)"
      unfolding conc_def by blast
    then have u: "\<forall>x\<in>set u. in_class x hyphen_lower_digit"
      by (simp only: star_Class)
    from \<open>v \<in> lang (Class lower_digit)\<close> \<open>t = u @ v\<close>
    obtain d where "t = u @ [d]" "in_class d lower_digit"
      by auto
    with s u show ?R by simp
  qed
next
  assume ?R
  then obtain ch w where s: "s = ch # w" "in_class ch lower"
    and w: "w = [] \<or> ((\<forall>x\<in>set (butlast w). in_class x hyphen_lower_digit) \<and> in_class (last w) lower_digit)"
    by blast
  have "w \<in> lang (Quest (Times (Star (Class hyphen_lower_digit)) (Class lower_digit)))"
  proof (cases "w = []")
    case True
    then show ?thesis by simp
  next
    case False
    with w have bl: "\<forall>x\<in>set (butlast w). in_class x hyphen_lower_digit"
      and la: "in_class (last w) lower_digit"
      by simp_all
    from bl have "butlast w \<in> star (lang (Class hyphen_lower_digit))"
      by (simp only: star_Class)
    moreover from la have "[last w] \<in> lang (Class lower_digit)"
      by simp
    ultimately have "butlast w @ [last w] \<in> conc (star (lang (Class hyphen_lower_digit))) (lang (Class lower_digit))"
      unfolding conc_def by blast
    with False show ?thesis by simp
  qed
  moreover have "[ch] \<in> lang (Class lower)" using s by simp
  ultimately have "[ch] @ w \<in> lang IsvcNameFmt"
    unfolding IsvcNameFmt_def lang.simps(5) conc_def by blast
  with s show ?L by simp
qed

subsection \<open>Loops\<close>

lemma autoscalerAllowedClassLoop_Return:
  "class \<in> set items \<Longrightarrow> autoscalerClassSwitch c isvc class = Return r \<Longrightarrow>
     autoscalerAllowedClassLoop c isvc class items = Return r"
  by (induction items) auto

lemma autoscalerAllowedClassLoop_FallThrough:
  "autoscalerClassSwitch c isvc class = FallThrough \<Longrightarrow>
     autoscalerAllowedClassLoop c isvc class items = FallThrough"
  by (induction items) auto

lemma autoscalerAllowedClassLoop_not_allowed:
  "class \<notin> set items \<Longrightarrow> autoscalerAllowedClassLoop c isvc class items = FallThrough"
  by (induction items) auto

lemma validateInferenceServiceAutoscaler_absent:
  "Annotations isvc (AutoscalerClass c) = None \<Longrightarrow> validateInferenceServiceAutoscaler c isvc = None"
  by (simp add: validateInferenceServiceAutoscaler_def)

lemma validateInferenceServiceAutoscaler_not_allowed:
  "Annotations isvc (AutoscalerClass c) = Some v \<Longrightarrow> v \<notin> set (AutoscalerAllowedClassList c) \<Longrightarrow>
     validateInferenceServiceAutoscaler c isvc = Some (UnsupportedAutoscalerClassError v)"
  by (simp add: validateInferenceServiceAutoscaler_def autoscalerAllowedClassLoop_not_allowed)

lemma validateKedaAutoScalingMetrics_first_only:
  "validateKedaAutoScalingMetrics c class (autoScaling # rest) =
     validateKedaAutoScalingMetrics c class [autoScaling]"
  by simp

lemma validateInferenceServiceAutoscaler_keda_nothing_configured:
  assumes "Annotations isvc (AutoscalerClass c) = Some (AutoscalerClassKeda c)"
    and "AutoscalerClassKeda c \<noteq> AutoscalerClassHPA c"
    and "ScaleMetric (ComponentExtensionSpec (Predictor isvc)) = None"
    and "AutoScaling (ComponentExtensionSpec (Predictor isvc)) = None
         \<or> AutoScaling (ComponentExtensionSpec (Predictor isvc)) = Some \<lparr>Metrics = []\<rparr>"
  shows "validateInferenceServiceAutoscaler c isvc
           = Some (UnsupportedAutoscalerClassError (AutoscalerClassKeda c))"
proof -
  from assms(2-4) have "autoscalerClassSwitch c isvc (AutoscalerClassKeda c) = FallThrough"
    by (auto simp: autoscalerClassSwitch_def)
  then have "autoscalerAllowedClassLoop c isvc (AutoscalerClassKeda c) (AutoscalerAllowedClassList c)
               = FallThrough"
    by (rule autoscalerAllowedClassLoop_FallThrough)
  with assms(1) show ?thesis
    by (simp add: validateInferenceServiceAutoscaler_def)
qed

lemma transformerEnvLoop_Some:
  "transformerEnvLoop c envs = Some e \<longleftrightarrow>
     e = StorageUriPresentInTransformerError
     \<and> (\<exists>env\<in>set envs. EnvVar_Name env = CustomSpecStorageUriEnvVarKey c)"
  by (induction envs) auto

lemma transformerEnvLoop_None:
  "transformerEnvLoop c envs = None \<longleftrightarrow>
     (\<forall>env\<in>set envs. EnvVar_Name env \<noteq> CustomSpecStorageUriEnvVarKey c)"
  by (induction envs) auto

lemma collocationContainersLoop_first:
  "\<forall>x\<in>set pre. Container_Name x \<noteq> TransformerContainerName c \<Longrightarrow>
   Container_Name ct = TransformerContainerName c \<Longrightarrow>
   collocationContainersLoop c (pre @ ct # post) = transformerEnvLoop c (Env ct)"
  by (induction pre) auto

lemma collocationContainersLoop_None:
  "\<forall>ct\<in>set cts. Container_Name ct = TransformerContainerName c \<longrightarrow>
      (\<forall>env\<in>set (Env ct). EnvVar_Name env \<noteq> CustomSpecStorageUriEnvVarKey c) \<Longrightarrow>
   collocationContainersLoop c cts = None"
  by (induction cts) (auto simp: transformerEnvLoop_None)

lemma FirstNonNilError_of_slice_None:
  "FirstNonNilError_of_slice [a, b, e] = None \<longleftrightarrow> a = None \<and> b = None \<and> e = None"
  by (cases a; cases b; cases e) (auto simp: FirstNonNilError_of_slice_def)

lemma implementationAndExtensionRules_None:
  "implementationAndExtensionRules d c annotations component = None \<longleftrightarrow>
     GetImplementation_Validate d component = None
     \<and> Extensions_Validate d (ComponentExtensionSpec component) = None
     \<and> validateAutoScalingCompExtension c annotations (ComponentExtensionSpec component) = None"
  by (simp add: implementationAndExtensionRules_def FirstNonNilError_of_slice_None)

lemma componentPasses_iff:
  "componentPasses d c annotations component \<longleftrightarrow>
     length (GetImplementations component) = 1
     \<and> implementationAndExtensionRules d c annotations component = None"
  by (simp add: componentPasses_def implementationAndExtensionRules_None)

lemma componentsLoop_Cons_None:
  "componentsLoop d c annotations ((role, slot) # rest) = None \<longleftrightarrow>
     slotPasses d c annotations slot \<and> componentsLoop d c annotations rest = None"
  by (cases slot)
     (auto simp: slotPasses_def componentPasses_iff validateExactlyOneImplementation_def
        split: option.splits)

lemma componentsLoop_Cons_passes:
  "slotPasses d c annotations slot \<Longrightarrow>
     componentsLoop d c annotations ((role, slot) # rest) = componentsLoop d c annotations rest"
  by (cases slot)
     (auto simp: slotPasses_def componentPasses_iff validateExactlyOneImplementation_def
        split: option.splits)

lemma componentsLoop_Cons_not_one:
  "length (GetImplementations component) \<noteq> 1 \<Longrightarrow>
     componentsLoop d c annotations ((role, Some component) # rest)
       = Some (ExactlyOneImplementationError role)"
  by (simp add: validateExactlyOneImplementation_def)

lemma validateInferenceService_accepts:
  "validateInferenceService d c isvc = ([], None) \<longleftrightarrow>
     rulesBeforeComponentsPass d c isvc
     \<and> componentsLoop d c (Annotations isvc) (components isvc) = None"
  by (auto simp: validateInferenceService_def rulesBeforeComponentsPass_def split: option.splits)

lemma validateInferenceService_components:
  "rulesBeforeComponentsPass d c isvc \<Longrightarrow>
     validateInferenceService d c isvc
       = ([], componentsLoop d c (Annotations isvc) (components isvc))"
  by (auto simp: validateInferenceService_def rulesBeforeComponentsPass_def split: option.splits)

lemma snd_validateInferenceService:
  "snd (validateInferenceService d c isvc) = None \<longleftrightarrow> validateInferenceService d c isvc = ([], None)"
  by (auto simp: validateInferenceService_def split: option.splits)

lemma workerContainersLoop_None:
  "workerContainersLoop d isvc containers = None \<longleftrightarrow>
     (\<forall>container\<in>set containers.
        IsUnknownGpuResourceType d (Resources container) (Annotations isvc) = Inr False)"
  by (induction containers) (auto simp: gpuResourceTypeCheck_def split: sum.splits option.splits)

lemma GetEnvVarValue_found:
  "snd (GetEnvVarValue envVars key) \<longleftrightarrow> (\<exists>envVar\<in>set envVars. EnvVar_Name envVar = key)"
  by (induction envVars) auto

lemma validateMultiNodeModel_storage_rejects:
  "StorageURI (PredictorExtensionSpec model) = None
     \<or> (\<exists>uri. StorageURI (PredictorExtensionSpec model) = Some uri \<and> before_first ''://'' uri \<noteq> ''pvc'')
   \<Longrightarrow> validateMultiNodeModel d c isvc model \<noteq> None"
  by (auto simp: validateMultiNodeModel_def Let_def split: option.splits)

subsection \<open>The HPA bounds, metric by metric\<close>

lemma validateScalingHPACompExtension_CPU:
  assumes "MetricCPU c \<in> set (AutoscalerAllowedHPAMetricsList c)"
    and "ScaleMetric compExtSpec = None \<or> ScaleMetric compExtSpec = Some (MetricCPU c)"
    and "ScaleTarget compExtSpec = Some target"
  shows "validateScalingHPACompExtension c compExtSpec \<noteq> None \<longleftrightarrow> target < 1 \<or> 100 < target"
  using assms
  by (auto simp: validateScalingHPACompExtension_def validateHPAMetrics_def Let_def
      split: if_splits)

lemma validateScalingHPACompExtension_Memory:
  assumes "MetricMemory c \<in> set (AutoscalerAllowedHPAMetricsList c)"
    and "ScaleMetric compExtSpec = Some (MetricMemory c)"
    and "ScaleTarget compExtSpec = Some target"
  shows "validateScalingHPACompExtension c compExtSpec \<noteq> None \<longleftrightarrow> target < 1 \<or> 100 < target"
  using assms
  by (auto simp: validateScalingHPACompExtension_def validateHPAMetrics_def Let_def
      split: if_splits)

subsection \<open>Unfolding the functions on concrete inputs\<close>

lemmas name_defs = validateInferenceServiceName_def MatchString_def IsvcNameFmt_def in_class_def
  lower_def lower_digit_def hyphen_lower_digit_def

lemmas autoscaler_defs = validateInferenceServiceAutoscaler_def autoscalerClassSwitch_def
  validateKEDAMetrics_def validateKEDAMetricBackends_def validateHPAMetrics_def

lemmas multinode_defs = validateMultiNodeVariables_def validateMultiNodeModel_def
  gpuResourceTypeCheck_def pipelineParallelSizeCheck_def tensorParallelSizeCheck_def

lemmas component_defs = components_def ComponentSpec.truncate_def GetImplementations_def
  validateExactlyOneImplementation_def implementationAndExtensionRules_def
  FirstNonNilError_of_slice_def GetImplementation_Validate_def
  validateAutoScalingCompExtension_def map_index_def autoscaling_ClassAnnotationKey_def
  autoscaling_HPA_def validateScalingHPACompExtension_def validateScalingKedaCompExtension_def
  validateScalingKedaMetric_def validateScalingKPACompExtension_def validateKPAMetrics_def

lemmas orchestrator_defs = validateInferenceService_def name_defs autoscaler_defs
  validateAutoscalerTargetUtilizationPercentage_def multinode_defs
  validateCollocationStorageURI_def component_defs

lemmas basic_defs = basic_predictor_def basic_isvc_def basic_model_def multinode_model_def
  no_resources_def empty_extension_def kserve_constants_def permissive_dependencies_def

section \<open>Autoscaler-class resolution\<close>

text \<open>
  Claim C1. Class resolution should return the unsupported-class error exactly when the
  class annotation is present with a value outside the allow-list. The code returns it
  for an allowed class as well: with the class \<^verbatim>\<open>keda\<close>, which is in the allow-list,
  and a predictor that sets neither \<^verbatim>\<open>scaleMetric\<close> nor \<^verbatim>\<open>autoScaling\<close> (or sets
  \<^verbatim>\<open>autoScaling\<close> with an empty metrics sequence), the KEDA case of the switch ends
  without a return, the loop over the allow-list runs out, and the function answers that
  \<^verbatim>\<open>keda\<close> is not a supported autoscaler class.
\<close>

theorem validateInferenceServiceAutoscaler_keda_unconfigured:
  "AutoscalerClassKeda kserve_constants \<in> set (AutoscalerAllowedClassList kserve_constants)
   \<and> Annotations (keda_isvc empty_extension) (AutoscalerClass kserve_constants)
       = Some (AutoscalerClassKeda kserve_constants)
   \<and> validateInferenceServiceAutoscaler kserve_constants (keda_isvc empty_extension)
       = Some (UnsupportedAutoscalerClassError ''keda'')
   \<and> validateInferenceServiceAutoscaler kserve_constants
        (keda_isvc (empty_extension\<lparr>AutoScaling := Some \<lparr>Metrics = []\<rparr>\<rparr>))
       = Some (UnsupportedAutoscalerClassError ''keda'')"
  by (simp add: autoscaler_defs basic_defs keda_isvc_def keda_annotations_def)

section \<open>Exactly one implementation per component\<close>

text \<open>
  Claim C2, as amended. The spec is accepted, with no warnings, exactly when the five
  earlier rules pass and each of the three slots passes: the predictor, and the
  transformer and the explainer when they are not nil, have exactly one populated
  implementation variant and pass their implementation-level rule, their extension-level
  rule and their scaling bounds. So for every spec and every non-nil slot with zero or
  several populated variants validation does not accept the spec. The rejection names
  that component when the five earlier rules and the slots before it pass; otherwise
  the error of the earlier rule or slot is the one returned.
\<close>

theorem validateInferenceService_exactly_one_implementation:
  "(validateInferenceService d c isvc = ([], None) \<longleftrightarrow>
      rulesBeforeComponentsPass d c isvc
      \<and> componentPasses d c (Annotations isvc) (ComponentSpec.truncate (Predictor isvc))
      \<and> slotPasses d c (Annotations isvc) (Transformer isvc)
      \<and> slotPasses d c (Annotations isvc) (Explainer isvc))
   \<and> (length (GetImplementations (ComponentSpec.truncate (Predictor isvc))) \<noteq> 1
        \<or> (\<exists>t. Transformer isvc = Some t \<and> length (GetImplementations t) \<noteq> 1)
        \<or> (\<exists>e. Explainer isvc = Some e \<and> length (GetImplementations e) \<noteq> 1)
      \<longrightarrow> snd (validateInferenceService d c isvc) \<noteq> None)
   \<and> (rulesBeforeComponentsPass d c isvc
        \<and> length (GetImplementations (ComponentSpec.truncate (Predictor isvc))) \<noteq> 1
      \<longrightarrow> validateInferenceService d c isvc
            = ([], Some (ExactlyOneImplementationError PredictorComponent)))
   \<and> (rulesBeforeComponentsPass d c isvc
        \<and> componentPasses d c (Annotations isvc) (ComponentSpec.truncate (Predictor isvc))
        \<and> Transformer isvc = Some t \<and> length (GetImplementations t) \<noteq> 1
      \<longrightarrow> validateInferenceService d c isvc
            = ([], Some (ExactlyOneImplementationError TransformerComponent)))
   \<and> (rulesBeforeComponentsPass d c isvc
        \<and> componentPasses d c (Annotations isvc) (ComponentSpec.truncate (Predictor isvc))
        \<and> slotPasses d c (Annotations isvc) (Transformer isvc)
        \<and> Explainer isvc = Some e \<and> length (GetImplementations e) \<noteq> 1
      \<longrightarrow> validateInferenceService d c isvc
            = ([], Some (ExactlyOneImplementationError ExplainerComponent)))"
proof -
  let ?ann = "Annotations isvc" and ?p = "ComponentSpec.truncate (Predictor isvc)"
  have pred: "slotPasses d c ?ann (Some ?p) = componentPasses d c ?ann ?p"
    by (simp add: slotPasses_def)
  have acc: "validateInferenceService d c isvc = ([], None) \<longleftrightarrow>
      rulesBeforeComponentsPass d c isvc
      \<and> componentPasses d c ?ann ?p
      \<and> slotPasses d c ?ann (Transformer isvc)
      \<and> slotPasses d c ?ann (Explainer isvc)"
    by (simp add: validateInferenceService_accepts components_def componentsLoop_Cons_None pred
        del: componentsLoop.simps(2) componentsLoop.simps(3))
  have rej: "snd (validateInferenceService d c isvc) \<noteq> None"
    if "length (GetImplementations ?p) \<noteq> 1
        \<or> (\<exists>t. Transformer isvc = Some t \<and> length (GetImplementations t) \<noteq> 1)
        \<or> (\<exists>e. Explainer isvc = Some e \<and> length (GetImplementations e) \<noteq> 1)"
  proof
    assume "snd (validateInferenceService d c isvc) = None"
    then have "componentPasses d c ?ann ?p" "slotPasses d c ?ann (Transformer isvc)"
      "slotPasses d c ?ann (Explainer isvc)"
      by (simp_all add: snd_validateInferenceService acc)
    with that show False
      by (auto simp: componentPasses_def slotPasses_def)
  qed
  have p1: "validateInferenceService d c isvc
              = ([], Some (ExactlyOneImplementationError PredictorComponent))"
    if "rulesBeforeComponentsPass d c isvc \<and> length (GetImplementations ?p) \<noteq> 1"
    using that
    by (simp add: validateInferenceService_components components_def componentsLoop_Cons_not_one
        del: componentsLoop.simps(2) componentsLoop.simps(3))
  have p2: "validateInferenceService d c isvc
              = ([], Some (ExactlyOneImplementationError TransformerComponent))"
    if "rulesBeforeComponentsPass d c isvc \<and> componentPasses d c ?ann ?p
        \<and> Transformer isvc = Some t \<and> length (GetImplementations t) \<noteq> 1"
    using that
    by (simp add: validateInferenceService_components components_def componentsLoop_Cons_passes
        componentsLoop_Cons_not_one pred del: componentsLoop.simps(2) componentsLoop.simps(3))
  have p3: "validateInferenceService d c isvc
              = ([], Some (ExactlyOneImplementationError ExplainerComponent))"
    if "rulesBeforeComponentsPass d c isvc \<and> componentPasses d c ?ann ?p
        \<and> slotPasses d c ?ann (Transformer isvc)
        \<and> Explainer isvc = Some e \<and> length (GetImplementations e) \<noteq> 1"
    using that
    by (simp add: validateInferenceService_components components_def componentsLoop_Cons_passes
        componentsLoop_Cons_not_one pred del: componentsLoop.simps(2) componentsLoop.simps(3))
  from acc rej p1 p2 p3 show ?thesis by blast
qed

text \<open>
  A spec whose predictor has exactly one variant and no other component; a predictor
  with a built-in model and a custom container; a transformer with no variant; an
  explainer with no variant.
\<close>

theorem validateInferenceService_exactly_one_implementation_witness:
  "validateInferenceService permissive_dependencies kserve_constants basic_isvc = ([], None)
   \<and> validateInferenceService permissive_dependencies kserve_constants
      (basic_isvc\<lparr>Predictor := basic_predictor\<lparr>Containers := [predictor_container]\<rparr>\<rparr>)
     = ([], Some (ExactlyOneImplementationError PredictorComponent))
   \<and> validateInferenceService permissive_dependencies kserve_constants
      (basic_isvc\<lparr>Transformer := Some empty_component\<rparr>)
     = ([], Some (ExactlyOneImplementationError TransformerComponent))
   \<and> validateInferenceService permissive_dependencies kserve_constants
      (basic_isvc\<lparr>Explainer := Some empty_component\<rparr>)
     = ([], Some (ExactlyOneImplementationError ExplainerComponent))"
proof -
  let ?d = permissive_dependencies and ?c = kserve_constants
  let ?i1 = "basic_isvc\<lparr>Predictor := basic_predictor\<lparr>Containers := [predictor_container]\<rparr>\<rparr>"
  let ?i2 = "basic_isvc\<lparr>Transformer := Some empty_component\<rparr>"
  let ?i3 = "basic_isvc\<lparr>Explainer := Some empty_component\<rparr>"
  have before: "rulesBeforeComponentsPass ?d ?c basic_isvc" "rulesBeforeComponentsPass ?d ?c ?i1"
    "rulesBeforeComponentsPass ?d ?c ?i2" "rulesBeforeComponentsPass ?d ?c ?i3"
    by (simp_all add: rulesBeforeComponentsPass_def orchestrator_defs basic_defs
        predictor_container_def)
  have pred: "componentPasses ?d ?c (Annotations basic_isvc) (ComponentSpec.truncate (Predictor basic_isvc))"
    "componentPasses ?d ?c (Annotations ?i2) (ComponentSpec.truncate (Predictor ?i2))"
    "componentPasses ?d ?c (Annotations ?i3) (ComponentSpec.truncate (Predictor ?i3))"
    by (simp_all add: componentPasses_def component_defs basic_defs)
  have nil: "slotPasses ?d ?c (Annotations basic_isvc) (Transformer basic_isvc)"
    "slotPasses ?d ?c (Annotations basic_isvc) (Explainer basic_isvc)"
    "slotPasses ?d ?c (Annotations ?i3) (Transformer ?i3)"
    by (simp_all add: slotPasses_def basic_isvc_def)
  have two: "length (GetImplementations (ComponentSpec.truncate (Predictor ?i1))) \<noteq> 1"
    by (simp add: GetImplementations_def ComponentSpec.truncate_def basic_defs)
  have none: "length (GetImplementations empty_component) \<noteq> 1"
    by (simp add: GetImplementations_def empty_component_def)
  have slots: "Transformer ?i2 = Some empty_component" "Explainer ?i3 = Some empty_component"
    by (simp_all add: basic_isvc_def)
  from validateInferenceService_exactly_one_implementation [of ?d ?c basic_isvc] before pred nil
  have r0: "validateInferenceService ?d ?c basic_isvc = ([], None)"
    by blast
  from validateInferenceService_exactly_one_implementation [of ?d ?c ?i1] before two
  have r1: "validateInferenceService ?d ?c ?i1
              = ([], Some (ExactlyOneImplementationError PredictorComponent))"
    by blast
  from validateInferenceService_exactly_one_implementation [of ?d ?c ?i2 empty_component] before pred none slots
  have r2: "validateInferenceService ?d ?c ?i2
              = ([], Some (ExactlyOneImplementationError TransformerComponent))"
    by blast
  from validateInferenceService_exactly_one_implementation [of ?d ?c ?i3 _ empty_component] before pred nil none slots
  have r3: "validateInferenceService ?d ?c ?i3
              = ([], Some (ExactlyOneImplementationError ExplainerComponent))"
    by blast
  from r0 r1 r2 r3 show ?thesis by simp
qed

text \<open>
  Claim C2 as stated fails on which error is returned. A spec with an invalid name and
  a predictor with no populated variant is rejected with the name error, which names no
  component. A spec whose predictor and transformer both have no populated variant is
  rejected with the error naming the predictor, not the transformer.
\<close>

theorem validateInferenceService_exactly_one_implementation_counterexample:
  "length (GetImplementations (ComponentSpec.truncate (basic_predictor\<lparr>Model := None\<rparr>))) = 0
   \<and> validateInferenceService permissive_dependencies kserve_constants
       (basic_isvc\<lparr>Name := ''My-model'', Predictor := basic_predictor\<lparr>Model := None\<rparr>\<rparr>)
      = ([], Some (InvalidISVCNameFormatError ''My-model''))
   \<and> length (GetImplementations empty_component) = 0
   \<and> validateInferenceService permissive_dependencies kserve_constants
       (basic_isvc\<lparr>Predictor := basic_predictor\<lparr>Model := None\<rparr>,
                    Transformer := Some empty_component\<rparr>)
      = ([], Some (ExactlyOneImplementationError PredictorComponent))"
  by (simp add: orchestrator_defs basic_defs empty_component_def)

section \<open>Multi-node validation\<close>

text \<open>
  Claim C3, as amended. For every spec whose predictor has a non-nil workerSpec and a
  non-nil built-in Model, multi-node validation rejects when the model's storage URI is
  missing or the text before the first \<^verbatim>\<open>://\<close> of the URI is anything other than
  exactly \<^verbatim>\<open>pvc\<close>. When in addition the workerSpec has at most one container, the
  environment of the model sets neither parallelism variable and the GPU resource type
  of the model is recognised, the rejection is the missing-storage-URI error in the
  first case and the unsupported-protocol error, naming the scheme, in the second.
\<close>

theorem validateMultiNodeVariables_storage_uri:
  assumes "WorkerSpec (Predictor isvc) = Some w" and "Model (Predictor isvc) = Some model"
  shows
   "(StorageURI (PredictorExtensionSpec model) = None
       \<or> (\<exists>uri. StorageURI (PredictorExtensionSpec model) = Some uri
                 \<and> before_first ''://'' uri \<noteq> ''pvc'')
      \<longrightarrow> validateMultiNodeVariables d c isvc \<noteq> None)
    \<and> (length (Worker_Containers w) \<le> 1
        \<and> (\<forall>envVar\<in>set (Env (Container (PredictorExtensionSpec model))).
              EnvVar_Name envVar \<noteq> PipelineParallelSizeEnvName c
              \<and> EnvVar_Name envVar \<noteq> TensorParallelSizeEnvName c)
        \<and> IsUnknownGpuResourceType d (Resources (Container (PredictorExtensionSpec model)))
              (Annotations isvc) = Inr False
      \<longrightarrow> (StorageURI (PredictorExtensionSpec model) = None \<longrightarrow>
             validateMultiNodeVariables d c isvc = Some (MissingStorageURI (Name isvc)))
          \<and> (\<forall>uri. StorageURI (PredictorExtensionSpec model) = Some uri
                    \<and> before_first ''://'' uri \<noteq> ''pvc'' \<longrightarrow>
               validateMultiNodeVariables d c isvc =
                 Some (InvalidNotSupportedStorageURIProtocolError (Name isvc)
                         (before_first ''://'' uri))))"
proof (intro conjI impI)
  assume "StorageURI (PredictorExtensionSpec model) = None
       \<or> (\<exists>uri. StorageURI (PredictorExtensionSpec model) = Some uri
                 \<and> before_first ''://'' uri \<noteq> ''pvc'')"
  then have "validateMultiNodeModel d c isvc model \<noteq> None"
    by (rule validateMultiNodeModel_storage_rejects)
  with assms show "validateMultiNodeVariables d c isvc \<noteq> None"
    by (auto simp: validateMultiNodeVariables_def)
next
  assume a: "length (Worker_Containers w) \<le> 1
        \<and> (\<forall>envVar\<in>set (Env (Container (PredictorExtensionSpec model))).
              EnvVar_Name envVar \<noteq> PipelineParallelSizeEnvName c
              \<and> EnvVar_Name envVar \<noteq> TensorParallelSizeEnvName c)
        \<and> IsUnknownGpuResourceType d (Resources (Container (PredictorExtensionSpec model)))
              (Annotations isvc) = Inr False"
    and u: "StorageURI (PredictorExtensionSpec model) = None"
  from a u have "validateMultiNodeModel d c isvc model = Some (MissingStorageURI (Name isvc))"
    by (auto simp: validateMultiNodeModel_def GetEnvVarValue_found gpuResourceTypeCheck_def)
  with assms a show "validateMultiNodeVariables d c isvc = Some (MissingStorageURI (Name isvc))"
    by (simp add: validateMultiNodeVariables_def)
next
  assume a: "length (Worker_Containers w) \<le> 1
        \<and> (\<forall>envVar\<in>set (Env (Container (PredictorExtensionSpec model))).
              EnvVar_Name envVar \<noteq> PipelineParallelSizeEnvName c
              \<and> EnvVar_Name envVar \<noteq> TensorParallelSizeEnvName c)
        \<and> IsUnknownGpuResourceType d (Resources (Container (PredictorExtensionSpec model)))
              (Annotations isvc) = Inr False"
  show "\<forall>uri. StorageURI (PredictorExtensionSpec model) = Some uri
                    \<and> before_first ''://'' uri \<noteq> ''pvc'' \<longrightarrow>
               validateMultiNodeVariables d c isvc =
                 Some (InvalidNotSupportedStorageURIProtocolError (Name isvc)
                         (before_first ''://'' uri))"
  proof (intro allI impI)
    fix uri
    assume u: "StorageURI (PredictorExtensionSpec model) = Some uri
                    \<and> before_first ''://'' uri \<noteq> ''pvc''"
    with a have "validateMultiNodeModel d c isvc model =
        Some (InvalidNotSupportedStorageURIProtocolError (Name isvc) (before_first ''://'' uri))"
      by (auto simp: validateMultiNodeModel_def GetEnvVarValue_found gpuResourceTypeCheck_def Let_def)
    with assms a show "validateMultiNodeVariables d c isvc =
                 Some (InvalidNotSupportedStorageURIProtocolError (Name isvc)
                         (before_first ''://'' uri))"
      by (simp add: validateMultiNodeVariables_def)
  qed
qed

text \<open>
  A multi-node model with no storage URI; one served from \<^verbatim>\<open>s3://bucket/model\<close>;
  and one served from there whose environment also sets the pipeline parallel size,
  which is rejected as well.
\<close>

theorem validateMultiNodeVariables_storage_uri_witness:
  "validateMultiNodeVariables permissive_dependencies kserve_constants
      (multinode_isvc (Some (multinode_model None [])))
     = Some (MissingStorageURI ''my-model'')
   \<and> validateMultiNodeVariables permissive_dependencies kserve_constants
      (multinode_isvc (Some (multinode_model (Some ''s3://bucket/model'') [])))
     = Some (InvalidNotSupportedStorageURIProtocolError ''my-model'' ''s3'')
   \<and> validateMultiNodeVariables permissive_dependencies kserve_constants
        (multinode_isvc (Some (multinode_model (Some ''s3://bucket/model'')
           [\<lparr>EnvVar_Name = ''PIPELINE_PARALLEL_SIZE'', EnvVar_Value = ''2''\<rparr>])))
      \<noteq> None"
proof -
  let ?d = permissive_dependencies and ?c = kserve_constants
  let ?m1 = "multinode_model None []" and ?m2 = "multinode_model (Some ''s3://bucket/model'') []"
  let ?m3 = "multinode_model (Some ''s3://bucket/model'')
               [\<lparr>EnvVar_Name = ''PIPELINE_PARALLEL_SIZE'', EnvVar_Value = ''2''\<rparr>]"
  have w: "WorkerSpec (Predictor (multinode_isvc (Some m))) = Some worker_spec" for m
    by (simp add: multinode_isvc_def basic_isvc_def basic_predictor_def)
  have m: "Model (Predictor (multinode_isvc (Some m))) = Some m" for m
    by (simp add: multinode_isvc_def basic_isvc_def basic_predictor_def)
  have ff: "length (Worker_Containers worker_spec) \<le> 1
        \<and> (\<forall>envVar\<in>set (Env (Container (PredictorExtensionSpec (multinode_model u [])))).
              EnvVar_Name envVar \<noteq> PipelineParallelSizeEnvName ?c
              \<and> EnvVar_Name envVar \<noteq> TensorParallelSizeEnvName ?c)
        \<and> IsUnknownGpuResourceType ?d
              (Resources (Container (PredictorExtensionSpec (multinode_model u []))))
              (Annotations (multinode_isvc (Some (multinode_model u [])))) = Inr False" for u
    by (simp add: worker_spec_def multinode_model_def permissive_dependencies_def)
  have u1: "StorageURI (PredictorExtensionSpec ?m1) = None"
    by (simp add: multinode_model_def)
  have u2: "StorageURI (PredictorExtensionSpec ?m2) = Some ''s3://bucket/model''
              \<and> before_first ''://'' ''s3://bucket/model'' \<noteq> ''pvc''"
    "before_first ''://'' ''s3://bucket/model'' = ''s3''"
    by (simp_all add: multinode_model_def)
  have u3: "StorageURI (PredictorExtensionSpec ?m3) = Some ''s3://bucket/model''
              \<and> before_first ''://'' ''s3://bucket/model'' \<noteq> ''pvc''"
    by (simp add: multinode_model_def)
  have nm: "Name (multinode_isvc (Some m)) = ''my-model''" for m
    by (simp add: multinode_isvc_def basic_isvc_def)
  from validateMultiNodeVariables_storage_uri [OF w m, of ?m1 ?d ?c] ff [of None] u1 nm
  have r1: "validateMultiNodeVariables ?d ?c (multinode_isvc (Some ?m1))
              = Some (MissingStorageURI ''my-model'')"
    by simp
  from validateMultiNodeVariables_storage_uri [OF w m, of ?m2 ?d ?c] ff [of "Some ''s3://bucket/model''"] u2
  have "validateMultiNodeVariables ?d ?c (multinode_isvc (Some ?m2))
              = Some (InvalidNotSupportedStorageURIProtocolError (Name (multinode_isvc (Some ?m2)))
                        (before_first ''://'' ''s3://bucket/model''))"
    by blast
  with u2 nm
  have r2: "validateMultiNodeVariables ?d ?c (multinode_isvc (Some ?m2))
              = Some (InvalidNotSupportedStorageURIProtocolError ''my-model'' ''s3'')"
    by simp
  from validateMultiNodeVariables_storage_uri [OF w m, of ?m3 ?d ?c] u3
  have r3: "validateMultiNodeVariables ?d ?c (multinode_isvc (Some ?m3)) \<noteq> None"
    by blast
  from r1 r2 r3 show ?thesis by simp
qed

text \<open>
  Claim C3 as stated fails. A predictor with a workerSpec and no built-in Model has no
  model storage URI, and multi-node validation passes. A predictor with a workerSpec and
  a Model served from \<^verbatim>\<open>s3://bucket/model\<close> whose environment sets the pipeline
  parallel size is rejected, but with the environment-override error, not the
  unsupported-protocol error.
\<close>

theorem validateMultiNodeVariables_storage_uri_counterexample:
  "WorkerSpec (Predictor (multinode_isvc None)) = Some worker_spec
   \<and> Model (Predictor (multinode_isvc None)) = None
   \<and> validateMultiNodeVariables permissive_dependencies kserve_constants (multinode_isvc None) = None
   \<and> before_first ''://'' ''s3://bucket/model'' = ''s3''
   \<and> validateMultiNodeVariables permissive_dependencies kserve_constants
        (multinode_isvc (Some (multinode_model (Some ''s3://bucket/model'')
           [\<lparr>EnvVar_Name = ''PIPELINE_PARALLEL_SIZE'', EnvVar_Value = ''2''\<rparr>])))
      = Some (DisallowedWorkerSpecPipelineParallelSizeEnvError ''my-model'')"
  by (simp add: multinode_defs basic_defs multinode_isvc_def worker_spec_def
      worker_container_def hpa_annotations_def)

section \<open>The KEDA conflict between scaleMetric and autoScaling\<close>

text \<open>
  Claim C4, as amended. For every spec carrying the KEDA autoscaler-class annotation
  (KEDA being in the allow-list, and a class other than HPA), if the extension of the
  predictor declares both scaleMetric and autoScaling, class resolution rejects with the
  conflict error, whatever the values of the two fields are, and so does the
  orchestrator when the name is valid. The extensions of the transformer and of the
  explainer are not examined by this rule.
\<close>

theorem validateInferenceServiceAutoscaler_keda_conflict:
  assumes "Annotations isvc (AutoscalerClass c) = Some (AutoscalerClassKeda c)"
    and "AutoscalerClassKeda c \<in> set (AutoscalerAllowedClassList c)"
    and "AutoscalerClassKeda c \<noteq> AutoscalerClassHPA c"
    and "ScaleMetric (ComponentExtensionSpec (Predictor isvc)) \<noteq> None"
    and "AutoScaling (ComponentExtensionSpec (Predictor isvc)) \<noteq> None"
  shows "validateInferenceServiceAutoscaler c isvc = Some ScaleMetricAutoScalingConflictError
       \<and> (validateInferenceServiceName isvc = None \<longrightarrow>
            validateInferenceService d c isvc = ([], Some ScaleMetricAutoScalingConflictError))"
proof -
  have "autoscalerClassSwitch c isvc (AutoscalerClassKeda c)
          = Return (Some ScaleMetricAutoScalingConflictError)"
    using assms(3-5) by (simp add: autoscalerClassSwitch_def)
  with assms(2)
  have "autoscalerAllowedClassLoop c isvc (AutoscalerClassKeda c) (AutoscalerAllowedClassList c)
          = Return (Some ScaleMetricAutoScalingConflictError)"
    by (rule autoscalerAllowedClassLoop_Return)
  with assms(1)
  have "validateInferenceServiceAutoscaler c isvc = Some ScaleMetricAutoScalingConflictError"
    by (simp add: validateInferenceServiceAutoscaler_def)
  then show ?thesis by (simp add: validateInferenceService_def)
qed

text \<open>A KEDA spec whose predictor sets both fields.\<close>

theorem validateInferenceServiceAutoscaler_keda_conflict_witness:
  "validateInferenceServiceAutoscaler kserve_constants (keda_isvc both_set_extension)
     = Some ScaleMetricAutoScalingConflictError
   \<and> validateInferenceService permissive_dependencies kserve_constants (keda_isvc both_set_extension)
     = ([], Some ScaleMetricAutoScalingConflictError)"
proof -
  let ?c = kserve_constants and ?i = "keda_isvc both_set_extension"
  have a1: "Annotations ?i (AutoscalerClass ?c) = Some (AutoscalerClassKeda ?c)"
    by (simp add: keda_isvc_def keda_annotations_def basic_defs)
  have a2: "AutoscalerClassKeda ?c \<in> set (AutoscalerAllowedClassList ?c)"
    by (simp add: kserve_constants_def)
  have a3: "AutoscalerClassKeda ?c \<noteq> AutoscalerClassHPA ?c"
    by (simp add: kserve_constants_def)
  have a4: "ScaleMetric (ComponentExtensionSpec (Predictor ?i)) \<noteq> None"
    by (simp add: keda_isvc_def both_set_extension_def basic_defs)
  have a5: "AutoScaling (ComponentExtensionSpec (Predictor ?i)) \<noteq> None"
    by (simp add: keda_isvc_def both_set_extension_def basic_defs)
  have nm: "validateInferenceServiceName ?i = None"
    by (simp add: name_defs keda_isvc_def basic_defs)
  from validateInferenceServiceAutoscaler_keda_conflict [OF a1 a2 a3 a4 a5, of permissive_dependencies]
    nm
  show ?thesis by simp
qed

text \<open>
  Claim C4 as stated fails for a component other than the predictor: a KEDA spec whose
  transformer declares both scaleMetric and autoScaling, and whose predictor declares
  scaleMetric alone, passes class resolution and is accepted by the orchestrator.
\<close>

theorem validateInferenceServiceAutoscaler_keda_conflict_counterexample:
  "Annotations (keda_isvc (empty_extension\<lparr>ScaleMetric := Some ''cpu''\<rparr>)
                  \<lparr>Transformer := Some both_set_transformer\<rparr>)
       (AutoscalerClass kserve_constants) = Some (AutoscalerClassKeda kserve_constants)
   \<and> ScaleMetric (ComponentExtensionSpec both_set_transformer) \<noteq> None
   \<and> AutoScaling (ComponentExtensionSpec both_set_transformer) \<noteq> None
   \<and> validateInferenceServiceAutoscaler kserve_constants
       (keda_isvc (empty_extension\<lparr>ScaleMetric := Some ''cpu''\<rparr>)
          \<lparr>Transformer := Some both_set_transformer\<rparr>)
      = None
   \<and> validateInferenceService permissive_dependencies kserve_constants
       (keda_isvc (empty_extension\<lparr>ScaleMetric := Some ''cpu''\<rparr>)
          \<lparr>Transformer := Some both_set_transformer\<rparr>)
      = ([], None)"
  by (simp add: orchestrator_defs basic_defs keda_isvc_def keda_annotations_def
      both_set_transformer_def both_set_extension_def resource_metric_def predictor_container_def)

section \<open>KEDA metric entries under class resolution\<close>

text \<open>
  Claim C5. Class resolution should validate every entry of \<^verbatim>\<open>autoScaling.metrics\<close>.
  The code returns from inside the loop at the first entry, in every branch, so only
  the first entry is looked at: a sequence whose first entry is the allowed resource
  \<^verbatim>\<open>cpu\<close> passes class resolution with a second entry naming a resource outside the
  KEDA-allowed set, and with a second entry of an unknown tag; the first of these specs
  is accepted by the whole validation.
\<close>

theorem validateInferenceServiceAutoscaler_keda_first_metric_only:
  "validateInferenceServiceAutoscaler kserve_constants
      (keda_isvc (empty_extension\<lparr>AutoScaling :=
         Some \<lparr>Metrics = [resource_metric ''cpu'', resource_metric ''bogus'']\<rparr>\<rparr>))
     = None
   \<and> validateKEDAMetrics kserve_constants ''bogus'' = Some (UnsupportedKEDAMetricError ''bogus'')
   \<and> validateInferenceServiceAutoscaler kserve_constants
      (keda_isvc (empty_extension\<lparr>AutoScaling :=
         Some \<lparr>Metrics = [resource_metric ''cpu'', untagged_metric]\<rparr>\<rparr>))
     = None
   \<and> validateInferenceService permissive_dependencies kserve_constants
      (keda_isvc (empty_extension\<lparr>AutoScaling :=
         Some \<lparr>Metrics = [resource_metric ''cpu'', resource_metric ''bogus'']\<rparr>\<rparr>))
     = ([], None)"
  by (simp add: orchestrator_defs basic_defs keda_isvc_def keda_annotations_def
      resource_metric_def untagged_metric_def)

section \<open>The HPA bounds evaluator\<close>

text \<open>
  Claim C6. Under the HPA evaluator a Memory target should be rejected exactly when it
  is below 1. The code tests \<^verbatim>\<open>metric == MetricCPU && target < 1 || target > 100\<close>,
  where \<^verbatim>\<open>&&\<close> binds tighter, so a target above 100 is rejected for every metric:
  the Memory target 200 is rejected, with the utilization-percentage error.
\<close>

theorem validateScalingHPACompExtension_memory_above_100:
  "MetricMemory kserve_constants \<in> set (AutoscalerAllowedHPAMetricsList kserve_constants)
   \<and> validateScalingHPACompExtension kserve_constants
       (empty_extension\<lparr>ScaleMetric := Some (MetricMemory kserve_constants), ScaleTarget := Some 200\<rparr>)
     = Some TargetUtilizationPercentageError"
  by (simp add: validateScalingHPACompExtension_def validateHPAMetrics_def basic_defs)

section \<open>Selection of the per-component bounds evaluator\<close>

text \<open>
  Claim C7. For every annotations map in which the deployment-mode annotation equals
  RawDeployment, the per-component bounds evaluator that runs is the HPA evaluator,
  whatever the autoscaler-class annotation is (KEDA included) and whatever the extension
  settings are. The raw-deployment disjunct of the KEDA branch is never the one that
  decides: the selection is the same with that disjunct removed.
\<close>

theorem validateAutoScalingCompExtension_RawDeployment:
  "(annotations ''serving.kserve.io/deploymentMode'' = Some (RawDeployment c) \<longrightarrow>
      validateAutoScalingCompExtension c annotations compExtSpec =
        validateScalingHPACompExtension c compExtSpec)
   \<and> validateAutoScalingCompExtension c annotations compExtSpec =
       (if map_index annotations ''serving.kserve.io/deploymentMode'' = RawDeployment c
           \<or> map_index annotations autoscaling_ClassAnnotationKey = autoscaling_HPA
        then validateScalingHPACompExtension c compExtSpec
        else if map_index annotations (AutoscalerClass c) = AutoscalerClassKeda c
        then validateScalingKedaCompExtension c compExtSpec
        else validateScalingKPACompExtension c compExtSpec)"
  by (simp add: validateAutoScalingCompExtension_def map_index_def)

text \<open>
  A raw deployment that also carries the KEDA class, with a metric outside the HPA
  vocabulary: the HPA evaluator rejects it, where the KEDA evaluator would not.
\<close>

theorem validateAutoScalingCompExtension_RawDeployment_witness:
  "raw_keda_annotations ''serving.kserve.io/deploymentMode'' = Some (RawDeployment kserve_constants)
   \<and> raw_keda_annotations (AutoscalerClass kserve_constants) = Some (AutoscalerClassKeda kserve_constants)
   \<and> validateAutoScalingCompExtension kserve_constants raw_keda_annotations
        (empty_extension\<lparr>ScaleMetric := Some ''rps''\<rparr>)
      = Some (UnsupportedMetricError ''rps'')
   \<and> validateScalingKedaCompExtension kserve_constants (empty_extension\<lparr>ScaleMetric := Some ''rps''\<rparr>)
      = None"
proof -
  have raw: "raw_keda_annotations ''serving.kserve.io/deploymentMode''
               = Some (RawDeployment kserve_constants)"
    by (simp add: kserve_constants_def raw_keda_annotations_def)
  have cls: "raw_keda_annotations (AutoscalerClass kserve_constants)
               = Some (AutoscalerClassKeda kserve_constants)"
    by (simp add: kserve_constants_def raw_keda_annotations_def)
  have hpa: "validateScalingHPACompExtension kserve_constants (empty_extension\<lparr>ScaleMetric := Some ''rps''\<rparr>)
               = Some (UnsupportedMetricError ''rps'')"
    by (simp add: validateScalingHPACompExtension_def validateHPAMetrics_def kserve_constants_def
        empty_extension_def)
  have keda: "validateScalingKedaCompExtension kserve_constants (empty_extension\<lparr>ScaleMetric := Some ''rps''\<rparr>)
               = None"
    by (simp add: validateScalingKedaCompExtension_def empty_extension_def)
  from validateAutoScalingCompExtension_RawDeployment
         [of raw_keda_annotations kserve_constants "empty_extension\<lparr>ScaleMetric := Some ''rps''\<rparr>"]
       raw cls hpa keda
  show ?thesis by simp
qed

section \<open>Name validation\<close>

text \<open>
  Claim C8. Name validation accepts the name of a spec if and only if the whole name is
  in the language of \<^verbatim>\<open>[a-z]([-a-z0-9]*[a-z0-9])?\<close>, that is: a lower-case letter,
  followed by nothing or by characters among hyphen, lower-case letters and digits of
  which the last is a lower-case letter or a digit. Every other name is rejected, and
  the orchestrator returns that rejection whatever the rest of the spec is, since the
  name is the first rule it runs.
\<close>

theorem validateInferenceServiceName_grammar:
  "(validateInferenceServiceName isvc = None \<longleftrightarrow> Name isvc \<in> lang IsvcNameFmt)
   \<and> (Name isvc \<in> lang IsvcNameFmt \<longleftrightarrow>
        (\<exists>ch w. Name isvc = ch # w \<and> in_class ch lower \<and>
           (w = [] \<or> ((\<forall>x\<in>set (butlast w). in_class x hyphen_lower_digit)
                       \<and> in_class (last w) lower_digit))))
   \<and> (Name isvc \<notin> lang IsvcNameFmt \<longrightarrow>
        validateInferenceService d c isvc = ([], Some (InvalidISVCNameFormatError (Name isvc))))"
  by (simp add: validateInferenceServiceName_def validateInferenceService_def MatchString_lang
      lang_IsvcNameFmt [symmetric])

text \<open>A valid name; the empty name, an upper-case letter, a leading digit and a trailing
  hyphen.\<close>

theorem validateInferenceServiceName_grammar_witness:
  "validateInferenceServiceName basic_isvc = None
   \<and> ''my-model'' \<in> lang IsvcNameFmt
   \<and> '''' \<notin> lang IsvcNameFmt
   \<and> ''My-model'' \<notin> lang IsvcNameFmt
   \<and> ''1model'' \<notin> lang IsvcNameFmt
   \<and> ''my-model-'' \<notin> lang IsvcNameFmt
   \<and> validateInferenceService permissive_dependencies kserve_constants
        (basic_isvc\<lparr>Name := ''my-model-''\<rparr>)
       = ([], Some (InvalidISVCNameFormatError ''my-model-''))"
proof -
  have ev: "validateInferenceServiceName basic_isvc = None"
    "validateInferenceServiceName (basic_isvc\<lparr>Name := ''''\<rparr>) \<noteq> None"
    "validateInferenceServiceName (basic_isvc\<lparr>Name := ''My-model''\<rparr>) \<noteq> None"
    "validateInferenceServiceName (basic_isvc\<lparr>Name := ''1model''\<rparr>) \<noteq> None"
    "validateInferenceServiceName (basic_isvc\<lparr>Name := ''my-model-''\<rparr>) \<noteq> None"
    by (simp_all add: name_defs basic_isvc_def)
  have nm: "Name basic_isvc = ''my-model''" "Name (basic_isvc\<lparr>Name := n\<rparr>) = n" for n
    by (simp_all add: basic_isvc_def)
  from validateInferenceServiceName_grammar [of basic_isvc]
    validateInferenceServiceName_grammar [of "basic_isvc\<lparr>Name := ''''\<rparr>"]
    validateInferenceServiceName_grammar [of "basic_isvc\<lparr>Name := ''My-model''\<rparr>"]
    validateInferenceServiceName_grammar [of "basic_isvc\<lparr>Name := ''1model''\<rparr>"]
    validateInferenceServiceName_grammar
      [of "basic_isvc\<lparr>Name := ''my-model-''\<rparr>" permissive_dependencies kserve_constants]
    ev nm
  show ?thesis by simp
qed

section \<open>Collocation of predictor and transformer\<close>

text \<open>
  Claim C9, as amended. For every spec, the collocation check rejects with the
  transformer-storage-URI error when the first container of the predictor that is named
  with the transformer role declares the model-storage-URI key in its environment
  (containers after it are not examined), and passes when no container named with the
  transformer role declares that key.
\<close>

theorem validateCollocationStorageURI_first_transformer:
  "(Containers predictorSpec = pre @ ct # post
      \<and> (\<forall>x\<in>set pre. Container_Name x \<noteq> TransformerContainerName c)
      \<and> Container_Name ct = TransformerContainerName c
      \<and> (\<exists>env\<in>set (Env ct). EnvVar_Name env = CustomSpecStorageUriEnvVarKey c)
     \<longrightarrow> validateCollocationStorageURI c predictorSpec = Some StorageUriPresentInTransformerError)
   \<and> ((\<forall>ct\<in>set (Containers predictorSpec). Container_Name ct = TransformerContainerName c \<longrightarrow>
          (\<forall>env\<in>set (Env ct). EnvVar_Name env \<noteq> CustomSpecStorageUriEnvVarKey c))
     \<longrightarrow> validateCollocationStorageURI c predictorSpec = None)"
proof (intro conjI impI)
  assume a: "Containers predictorSpec = pre @ ct # post
      \<and> (\<forall>x\<in>set pre. Container_Name x \<noteq> TransformerContainerName c)
      \<and> Container_Name ct = TransformerContainerName c
      \<and> (\<exists>env\<in>set (Env ct). EnvVar_Name env = CustomSpecStorageUriEnvVarKey c)"
  then have "collocationContainersLoop c (pre @ ct # post) = transformerEnvLoop c (Env ct)"
    by (simp add: collocationContainersLoop_first)
  moreover from a have "transformerEnvLoop c (Env ct) = Some StorageUriPresentInTransformerError"
    by (simp add: transformerEnvLoop_Some)
  ultimately
  show "validateCollocationStorageURI c predictorSpec = Some StorageUriPresentInTransformerError"
    using a by (simp add: validateCollocationStorageURI_def)
next
  assume "\<forall>ct\<in>set (Containers predictorSpec). Container_Name ct = TransformerContainerName c \<longrightarrow>
          (\<forall>env\<in>set (Env ct). EnvVar_Name env \<noteq> CustomSpecStorageUriEnvVarKey c)"
  then show "validateCollocationStorageURI c predictorSpec = None"
    unfolding validateCollocationStorageURI_def by (rule collocationContainersLoop_None)
qed

text \<open>A transformer container after the predictor container, with and without the key.\<close>

theorem validateCollocationStorageURI_first_transformer_witness:
  "validateCollocationStorageURI kserve_constants
      (basic_predictor\<lparr>Containers := [predictor_container, transformer_container [storage_uri_env]]\<rparr>)
     = Some StorageUriPresentInTransformerError
   \<and> validateCollocationStorageURI kserve_constants
      (basic_predictor\<lparr>Containers := [predictor_container, transformer_container []]\<rparr>)
     = None"
proof -
  let ?c = kserve_constants
  let ?p1 = "basic_predictor\<lparr>Containers := [predictor_container, transformer_container [storage_uri_env]]\<rparr>"
  let ?p2 = "basic_predictor\<lparr>Containers := [predictor_container, transformer_container []]\<rparr>"
  have h1: "Containers ?p1 = [predictor_container] @ transformer_container [storage_uri_env] # []
      \<and> (\<forall>x\<in>set [predictor_container]. Container_Name x \<noteq> TransformerContainerName ?c)
      \<and> Container_Name (transformer_container [storage_uri_env]) = TransformerContainerName ?c
      \<and> (\<exists>env\<in>set (Env (transformer_container [storage_uri_env])).
            EnvVar_Name env = CustomSpecStorageUriEnvVarKey ?c)"
    by (simp add: basic_defs predictor_container_def transformer_container_def storage_uri_env_def)
  have h2: "\<forall>ct\<in>set (Containers ?p2). Container_Name ct = TransformerContainerName ?c \<longrightarrow>
          (\<forall>env\<in>set (Env ct). EnvVar_Name env \<noteq> CustomSpecStorageUriEnvVarKey ?c)"
    by (simp add: basic_defs predictor_container_def transformer_container_def)
  from validateCollocationStorageURI_first_transformer
         [where predictorSpec = ?p1 and c = ?c and pre = "[predictor_container]"
            and ct = "transformer_container [storage_uri_env]" and post = "[]"] h1
  have r1: "validateCollocationStorageURI ?c ?p1 = Some StorageUriPresentInTransformerError"
    by blast
  from validateCollocationStorageURI_first_transformer [where predictorSpec = ?p2 and c = ?c] h2
  have r2: "validateCollocationStorageURI ?c ?p2 = None"
    by blast
  from r1 r2 show ?thesis by simp
qed

text \<open>
  Claim C9 as stated fails when two containers carry the transformer name: the loop
  stops after the first, so a storage-URI key declared by the second is not seen and the
  check passes.
\<close>

theorem validateCollocationStorageURI_first_transformer_counterexample:
  "Container_Name (transformer_container [storage_uri_env]) = TransformerContainerName kserve_constants
   \<and> EnvVar_Name storage_uri_env = CustomSpecStorageUriEnvVarKey kserve_constants
   \<and> validateCollocationStorageURI kserve_constants
       (basic_predictor\<lparr>Containers := [transformer_container [], transformer_container [storage_uri_env]]\<rparr>)
      = None"
  by (simp add: validateCollocationStorageURI_def basic_defs transformer_container_def
      storage_uri_env_def)

section \<open>Multi-node validation without a built-in Model\<close>

text \<open>
  Claim C10. When the predictor has a workerSpec and no built-in Model, multi-node
  validation passes exactly when the workerSpec has at most one container, its
  pipelineParallelSize, if set, is at least 2, its tensorParallelSize, if set, is at
  least 1, and the GPU resource type of every worker container is recognised; the
  environment overrides, the GPU type of the model, the storage URI and the autoscaler
  class play no part. The four checks run in that order, each with its own error: more
  than one container, a pipeline size below 2, a tensor size below 1, and the outcome of
  the GPU-type check of the worker container.
\<close>

theorem validateMultiNodeVariables_without_Model:
  assumes "WorkerSpec (Predictor isvc) = Some w" and "Model (Predictor isvc) = None"
  shows
   "(validateMultiNodeVariables d c isvc = None \<longleftrightarrow>
       length (Worker_Containers w) \<le> 1
       \<and> (\<forall>pps. PipelineParallelSize w = Some pps \<longrightarrow> 2 \<le> pps)
       \<and> (\<forall>tps. TensorParallelSize w = Some tps \<longrightarrow> 1 \<le> tps)
       \<and> (\<forall>container\<in>set (Worker_Containers w).
             IsUnknownGpuResourceType d (Resources container) (Annotations isvc) = Inr False))
    \<and> (1 < length (Worker_Containers w) \<longrightarrow>
         validateMultiNodeVariables d c isvc
           = Some (DisallowedMultipleContainersInWorkerSpecError (Name isvc)))
    \<and> (\<forall>pps. length (Worker_Containers w) \<le> 1 \<and> PipelineParallelSize w = Some pps \<and> pps < 2 \<longrightarrow>
         validateMultiNodeVariables d c isvc
           = Some (InvalidWorkerSpecPipelineParallelSizeValueError (Name isvc) pps))
    \<and> (\<forall>tps. length (Worker_Containers w) \<le> 1
              \<and> (\<forall>pps. PipelineParallelSize w = Some pps \<longrightarrow> 2 \<le> pps)
              \<and> TensorParallelSize w = Some tps \<and> tps < 1 \<longrightarrow>
         validateMultiNodeVariables d c isvc
           = Some (InvalidWorkerSpecTensorParallelSizeValueError (Name isvc) tps))
    \<and> (\<forall>container. Worker_Containers w = [container]
              \<and> (\<forall>pps. PipelineParallelSize w = Some pps \<longrightarrow> 2 \<le> pps)
              \<and> (\<forall>tps. TensorParallelSize w = Some tps \<longrightarrow> 1 \<le> tps) \<longrightarrow>
         validateMultiNodeVariables d c isvc
           = (case IsUnknownGpuResourceType d (Resources container) (Annotations isvc) of
                Inl err \<Rightarrow> Some err
              | Inr isUnknownGPUType \<Rightarrow>
                  if isUnknownGPUType then Some (InvalidUnknownGPUTypeError (Name isvc)) else None))"
proof -
  have eq: "validateMultiNodeVariables d c isvc =
           (if length (Worker_Containers w) > 1
            then Some (DisallowedMultipleContainersInWorkerSpecError (Name isvc))
            else case pipelineParallelSizeCheck isvc w of
                   Some err \<Rightarrow> Some err
                 | None \<Rightarrow>
                    (case tensorParallelSizeCheck isvc w of
                       Some err \<Rightarrow> Some err
                     | None \<Rightarrow> workerContainersLoop d isvc (Worker_Containers w)))"
    using assms by (simp add: validateMultiNodeVariables_def)
  have pps: "pipelineParallelSizeCheck isvc w = None \<longleftrightarrow>
               (\<forall>pps. PipelineParallelSize w = Some pps \<longrightarrow> 2 \<le> pps)"
    by (auto simp: pipelineParallelSizeCheck_def split: option.splits)
  have tps: "tensorParallelSizeCheck isvc w = None \<longleftrightarrow>
               (\<forall>tps. TensorParallelSize w = Some tps \<longrightarrow> 1 \<le> tps)"
    by (auto simp: tensorParallelSizeCheck_def split: option.splits)
  have a: "validateMultiNodeVariables d c isvc = None \<longleftrightarrow>
       length (Worker_Containers w) \<le> 1
       \<and> (\<forall>pps. PipelineParallelSize w = Some pps \<longrightarrow> 2 \<le> pps)
       \<and> (\<forall>tps. TensorParallelSize w = Some tps \<longrightarrow> 1 \<le> tps)
       \<and> (\<forall>container\<in>set (Worker_Containers w).
             IsUnknownGpuResourceType d (Resources container) (Annotations isvc) = Inr False)"
    unfolding eq pps [symmetric] tps [symmetric] workerContainersLoop_None [symmetric]
    by (auto split: option.splits)
  have b: "1 < length (Worker_Containers w) \<longrightarrow>
         validateMultiNodeVariables d c isvc
           = Some (DisallowedMultipleContainersInWorkerSpecError (Name isvc))"
    by (simp add: eq)
  have c: "\<forall>pps. length (Worker_Containers w) \<le> 1 \<and> PipelineParallelSize w = Some pps \<and> pps < 2 \<longrightarrow>
         validateMultiNodeVariables d c isvc
           = Some (InvalidWorkerSpecPipelineParallelSizeValueError (Name isvc) pps)"
    by (auto simp: eq pipelineParallelSizeCheck_def)
  have d: "\<forall>tps. length (Worker_Containers w) \<le> 1
              \<and> (\<forall>pps. PipelineParallelSize w = Some pps \<longrightarrow> 2 \<le> pps)
              \<and> TensorParallelSize w = Some tps \<and> tps < 1 \<longrightarrow>
         validateMultiNodeVariables d c isvc
           = Some (InvalidWorkerSpecTensorParallelSizeValueError (Name isvc) tps)"
    unfolding pps [symmetric] by (auto simp: eq tensorParallelSizeCheck_def)
  have e: "\<forall>container. Worker_Containers w = [container]
              \<and> (\<forall>pps. PipelineParallelSize w = Some pps \<longrightarrow> 2 \<le> pps)
              \<and> (\<forall>tps. TensorParallelSize w = Some tps \<longrightarrow> 1 \<le> tps) \<longrightarrow>
         validateMultiNodeVariables d c isvc
           = (case IsUnknownGpuResourceType d (Resources container) (Annotations isvc) of
                Inl err \<Rightarrow> Some err
              | Inr isUnknownGPUType \<Rightarrow>
                  if isUnknownGPUType then Some (InvalidUnknownGPUTypeError (Name isvc)) else None)"
    unfolding pps [symmetric] tps [symmetric]
    by (auto simp: eq gpuResourceTypeCheck_def split: sum.splits)
  from a b c d e show ?thesis by blast
qed

text \<open>
  A multi-node predictor with no built-in Model under the HPA class, which passes; and
  the same with pipelineParallelSize 1, which is rejected.
\<close>

theorem validateMultiNodeVariables_without_Model_witness:
  "map_index (Annotations (multinode_isvc None)) (AutoscalerClass kserve_constants)
      \<noteq> AutoscalerClassExternal kserve_constants
   \<and> validateMultiNodeVariables permissive_dependencies kserve_constants (multinode_isvc None) = None
   \<and> validateMultiNodeVariables permissive_dependencies kserve_constants
       (multinode_isvc None
          \<lparr>Predictor := basic_predictor
             \<lparr>Model := None,
              WorkerSpec := Some (worker_spec\<lparr>PipelineParallelSize := Some 1\<rparr>)\<rparr>\<rparr>)
      = Some (InvalidWorkerSpecPipelineParallelSizeValueError ''my-model'' 1)"
proof -
  let ?d = permissive_dependencies and ?c = kserve_constants and ?i = "multinode_isvc None"
  let ?w1 = "worker_spec\<lparr>PipelineParallelSize := Some 1\<rparr>"
  let ?i1 = "multinode_isvc None\<lparr>Predictor := basic_predictor\<lparr>Model := None, WorkerSpec := Some ?w1\<rparr>\<rparr>"
  have w: "WorkerSpec (Predictor ?i) = Some worker_spec" "WorkerSpec (Predictor ?i1) = Some ?w1"
    by (simp_all add: multinode_isvc_def basic_isvc_def basic_predictor_def)
  have m: "Model (Predictor ?i) = None" "Model (Predictor ?i1) = None"
    by (simp_all add: multinode_isvc_def basic_isvc_def basic_predictor_def)
  have checks: "length (Worker_Containers worker_spec) \<le> 1
       \<and> (\<forall>pps. PipelineParallelSize worker_spec = Some pps \<longrightarrow> 2 \<le> pps)
       \<and> (\<forall>tps. TensorParallelSize worker_spec = Some tps \<longrightarrow> 1 \<le> tps)
       \<and> (\<forall>container\<in>set (Worker_Containers worker_spec).
             IsUnknownGpuResourceType ?d (Resources container) (Annotations ?i) = Inr False)"
    by (simp add: worker_spec_def permissive_dependencies_def)
  have low: "length (Worker_Containers ?w1) \<le> 1 \<and> PipelineParallelSize ?w1 = Some 1 \<and> (1::int) < 2"
    by (simp add: worker_spec_def)
  have cls: "map_index (Annotations ?i) (AutoscalerClass ?c) \<noteq> AutoscalerClassExternal ?c"
    by (simp add: map_index_def multinode_isvc_def hpa_annotations_def basic_defs)
  have nm: "Name ?i1 = ''my-model''"
    by (simp add: multinode_isvc_def basic_isvc_def)
  from validateMultiNodeVariables_without_Model [OF w(1) m(1), of ?d ?c] checks
  have r1: "validateMultiNodeVariables ?d ?c ?i = None"
    by blast
  from validateMultiNodeVariables_without_Model [OF w(2) m(2), of ?d ?c] low
  have "validateMultiNodeVariables ?d ?c ?i1
          = Some (InvalidWorkerSpecPipelineParallelSizeValueError (Name ?i1) 1)"
    by blast
  with nm have r2: "validateMultiNodeVariables ?d ?c ?i1
          = Some (InvalidWorkerSpecPipelineParallelSizeValueError ''my-model'' 1)"
    by simp
  from cls r1 r2 show ?thesis by simp
qed

end
